theory Spec2Isabelle
  imports Complex_Main "HOL-Library.Sublist" "HOL-Library.Multiset"
begin

section \<open>Cooldown tracker and heartbeat schedule (src/src/heartbeat.ts)\<close>

text \<open>
  The persisted state keeps each timestamp as \<^verbatim>\<open>string | null\<close>. The methods read a
  field in two steps: the truthiness test \<^verbatim>\<open>!this.state.lastPost\<close> (true for
  \<^verbatim>\<open>null\<close>, a missing field and the empty string) and then
  \<^verbatim>\<open>new Date(s).getTime()\<close>, which is the epoch time in milliseconds, or NaN when the
  string is no date. The three outcomes are the three constructors of \<open>iso_time\<close>.
  \<^verbatim>\<open>Date.now()\<close> is the parameter \<open>now\<close> (integer milliseconds); the string written by
  \<^verbatim>\<open>new Date().toISOString()\<close> has millisecond precision, so it reads back as the same
  instant. Every comparison with NaN is false.
\<close>

datatype iso_time = NoTime | BadTime | Time int

record HeartbeatState =
  lastCheck :: iso_time
  lastPost :: iso_time
  lastComment :: iso_time
  checkCount :: int

definition DEFAULT_HEARTBEAT_INTERVAL_MS :: int where
  "DEFAULT_HEARTBEAT_INTERVAL_MS = 4 * 60 * 60 * 1000"

definition MIN_HEARTBEAT_INTERVAL_MS :: int where
  "MIN_HEARTBEAT_INTERVAL_MS = 1 * 60 * 60 * 1000"

definition shouldRunHeartbeat :: "int \<Rightarrow> int \<Rightarrow> HeartbeatState \<Rightarrow> bool" where
  "shouldRunHeartbeat intervalMs now st =
     (let effectiveInterval = max intervalMs MIN_HEARTBEAT_INTERVAL_MS in
      case lastCheck st of
        NoTime \<Rightarrow> True
      | BadTime \<Rightarrow> False
      | Time lastCheckTime \<Rightarrow> now - lastCheckTime \<ge> effectiveInterval)"

definition canPost :: "int \<Rightarrow> HeartbeatState \<Rightarrow> bool" where
  "canPost now st =
     (case lastPost st of
        NoTime \<Rightarrow> True
      | BadTime \<Rightarrow> False
      | Time lastPostTime \<Rightarrow> (let cooldownMs = 30 * 60 * 1000 in now - lastPostTime \<ge> cooldownMs))"

definition canComment :: "int \<Rightarrow> HeartbeatState \<Rightarrow> bool" where
  "canComment now st =
     (case lastComment st of
        NoTime \<Rightarrow> True
      | BadTime \<Rightarrow> False
      | Time lastCommentTime \<Rightarrow> (let cooldownMs = 20 * 1000 in now - lastCommentTime \<ge> cooldownMs))"

definition recordPost :: "int \<Rightarrow> HeartbeatState \<Rightarrow> HeartbeatState" where
  "recordPost now st = st\<lparr>lastPost := Time now\<rparr>"

definition recordComment :: "int \<Rightarrow> HeartbeatState \<Rightarrow> HeartbeatState" where
  "recordComment now st = st\<lparr>lastComment := Time now\<rparr>"

section \<open>Analytics helpers (src/src/tools.ts)\<close>

text \<open>
  The helpers work on posts that were already fetched. A post carries the fields of the
  interface \<^verbatim>\<open>Post\<close> that the helpers read; the numbers are the integer counts the
  platform sends. JavaScript computes the ratios and means in double precision; the model
  computes them exactly (as reals), which gives the same comparisons for counts of the
  size a feed holds.
\<close>

record Post =
  post_id :: string
  title :: string
  content :: "string option"
  upvotes :: int
  downvotes :: int
  comment_count :: int

datatype sentiment_class = positive | negative | neutral

datatype overall_class = overall_positive | overall_negative | overall_neutral | overall_mixed

record sentiment_detail =
  detail_post_id :: string
  detail_title :: string
  sentiment :: sentiment_class
  ratio :: real

record sentiment_summary =
  overall :: overall_class
  score :: real
  details :: "sentiment_detail list"

text \<open>The body of \<^verbatim>\<open>posts.map((post) => ...)\<close> in \<^verbatim>\<open>analyze_sentiment\<close>.\<close>

definition post_sentiment :: "Post \<Rightarrow> sentiment_detail" where
  "post_sentiment post =
     (let total = upvotes post + downvotes post;
          ratio = (if total > 0 then real_of_int (upvotes post) / real_of_int total else 0.5);
          sentiment = (if ratio > 0.6 then positive else if ratio < 0.4 then negative else neutral)
      in \<lparr>detail_post_id = post_id post, detail_title = title post,
           sentiment = sentiment, ratio = ratio\<rparr>)"

text \<open>
  \<^verbatim>\<open>analyze_sentiment\<close> after the posts are fetched: \<open>Inl\<close> is the failure result
  \<^verbatim>\<open>{ success: false, error }\<close> for an empty collection (the source's message is
  Chinese; it is given here in English), \<open>Inr\<close> the \<^verbatim>\<open>sentiment\<close> object of the success
  result.
\<close>

definition analyze_sentiment :: "Post list \<Rightarrow> string + sentiment_summary" where
  "analyze_sentiment posts =
     (if length posts = 0 then Inl ''no posts found to analyse''
      else
        let details = map post_sentiment posts;
            avgRatio = foldl (\<lambda>sum d. sum + ratio d) 0 details / real (length details);
            positiveCount = length (filter (\<lambda>d. sentiment d = positive) details);
            negativeCount = length (filter (\<lambda>d. sentiment d = negative) details);
            overall =
              (if real positiveCount > real (length details) * 0.6 then overall_positive
               else if real negativeCount > real (length details) * 0.6 then overall_negative
               else if positiveCount > 0 \<and> negativeCount > 0 then overall_mixed
               else overall_neutral)
        in Inr \<lparr>overall = overall, score = avgRatio, details = details\<rparr>)"

datatype anomaly_reason = high_upvotes | high_downvotes | high_downvote_ratio | high_comments

record unusual_post =
  unusual_post_id :: string
  unusual_title :: string
  reasons :: "anomaly_reason list"
  anomaly_score :: int

text \<open>
  One iteration of \<^verbatim>\<open>for (const post of posts)\<close> in \<^verbatim>\<open>analyze_anomaly\<close>: the four
  tests in the source's order, each pushing a reason and adding to \<^verbatim>\<open>anomalyScore\<close>.
  A reason is kept as a tag; the source formats it as text and joins the texts with
  \<^verbatim>\<open>"; "\<close>.
\<close>

definition note_if :: "bool \<Rightarrow> anomaly_reason \<Rightarrow> int \<Rightarrow> anomaly_reason list \<times> int \<Rightarrow> anomaly_reason list \<times> int" where
  "note_if c r w acc = (if c then (fst acc @ [r], snd acc + w) else acc)"

definition check_post :: "real \<Rightarrow> real \<Rightarrow> real \<Rightarrow> Post \<Rightarrow> anomaly_reason list \<times> int" where
  "check_post avgUpvotes avgDownvotes avgComments post =
     (let acc0 = ([], 0);
          acc1 = note_if (real_of_int (upvotes post) > avgUpvotes * 3) high_upvotes 2 acc0;
          acc2 = note_if (real_of_int (downvotes post) > avgDownvotes * 3 \<and> downvotes post > 5)
                   high_downvotes 2 acc1;
          total = upvotes post + downvotes post;
          acc3 = note_if (total > 10 \<and> real_of_int (downvotes post) / real_of_int total > 0.5)
                   high_downvote_ratio 1 acc2;
          acc4 = note_if (real_of_int (comment_count post) > avgComments * 4) high_comments 1 acc3
      in acc4)"

fun scan_posts :: "real \<Rightarrow> real \<Rightarrow> real \<Rightarrow> Post list \<Rightarrow> unusual_post list \<Rightarrow> unusual_post list" where
  "scan_posts avgU avgD avgC [] unusualPosts = unusualPosts"
| "scan_posts avgU avgD avgC (post # rest) unusualPosts =
     (let (rs, anomalyScore) = check_post avgU avgD avgC post
      in scan_posts avgU avgD avgC rest
           (if length rs > 0
            then unusualPosts @ [\<lparr>unusual_post_id = post_id post, unusual_title = title post,
                                   reasons = rs, anomaly_score = anomalyScore\<rparr>]
            else unusualPosts))"

definition mean_of :: "(Post \<Rightarrow> int) \<Rightarrow> Post list \<Rightarrow> real" where
  "mean_of f posts = real_of_int (foldl (\<lambda>sum p. sum + f p) 0 posts) / real (length posts)"

text \<open>
  The flagged posts before and after \<^verbatim>\<open>unusualPosts.sort((a, b) => b.score - a.score)\<close>
  (a stable sort, descending by score), and the list the tool returns,
  \<^verbatim>\<open>unusualPosts.slice(0, 10)\<close>.
\<close>

definition flagged_posts :: "Post list \<Rightarrow> unusual_post list" where
  "flagged_posts posts =
     scan_posts (mean_of upvotes posts) (mean_of downvotes posts) (mean_of comment_count posts) posts []"

definition sorted_flagged :: "Post list \<Rightarrow> unusual_post list" where
  "sorted_flagged posts = sort_key (\<lambda>u. - anomaly_score u) (flagged_posts posts)"

definition analyze_anomaly :: "Post list \<Rightarrow> unusual_post list" where
  "analyze_anomaly posts = take 10 (sorted_flagged posts)"

text \<open>
  The flag conditions as the specification words them, with the downvote-ratio test
  guarded by "at least 10 total votes"; \<open>code_flag_condition\<close> is the guard the source has.
\<close>

definition spec_flag_condition :: "real \<Rightarrow> real \<Rightarrow> real \<Rightarrow> Post \<Rightarrow> bool" where
  "spec_flag_condition avgU avgD avgC p \<longleftrightarrow>
     real_of_int (upvotes p) > 3 * avgU
     \<or> (real_of_int (downvotes p) > 3 * avgD \<and> downvotes p > 5)
     \<or> (real_of_int (downvotes p) / real_of_int (upvotes p + downvotes p) > 1 / 2
         \<and> upvotes p + downvotes p \<ge> 10)
     \<or> real_of_int (comment_count p) > 4 * avgC"

definition code_flag_condition :: "real \<Rightarrow> real \<Rightarrow> real \<Rightarrow> Post \<Rightarrow> bool" where
  "code_flag_condition avgU avgD avgC p \<longleftrightarrow>
     real_of_int (upvotes p) > 3 * avgU
     \<or> (real_of_int (downvotes p) > 3 * avgD \<and> downvotes p > 5)
     \<or> (real_of_int (downvotes p) / real_of_int (upvotes p + downvotes p) > 1 / 2
         \<and> upvotes p + downvotes p > 10)
     \<or> real_of_int (comment_count p) > 4 * avgC"

definition severity :: "real \<Rightarrow> real \<Rightarrow> real \<Rightarrow> Post \<Rightarrow> int" where
  "severity avgU avgD avgC p =
     (if real_of_int (upvotes p) > 3 * avgU then 2 else 0)
     + (if real_of_int (downvotes p) > 3 * avgD \<and> downvotes p > 5 then 2 else 0)
     + (if real_of_int (downvotes p) / real_of_int (upvotes p + downvotes p) > 1 / 2
           \<and> upvotes p + downvotes p > 10 then 1 else 0)
     + (if real_of_int (comment_count p) > 4 * avgC then 1 else 0)"

text \<open>How many posts of a collection fall into a sentiment class.\<close>

definition class_count :: "sentiment_class \<Rightarrow> Post list \<Rightarrow> nat" where
  "class_count c posts = length (filter (\<lambda>p. sentiment (post_sentiment p) = c) posts)"

text \<open>A post with given vote and comment counts, for evaluating the helpers.\<close>

definition sample_post :: "int \<Rightarrow> int \<Rightarrow> int \<Rightarrow> Post" where
  "sample_post u d c =
     \<lparr>post_id = ''p'', title = ''t'', content = None, upvotes = u, downvotes = d, comment_count = c\<rparr>"

section \<open>Transport layer (src/src/tools.ts, apiRequest)\<close>

text \<open>
  \<^verbatim>\<open>apiRequest\<close> resolves a key, then runs
  \<^verbatim>\<open>for (let attempt = 1; attempt <= maxRetries; attempt++)\<close>. What the network does is
  the parameter \<open>fetch\<close>: the outcome of the \<open>attempt\<close>-th call of \<^verbatim>\<open>fetch(fullUrl)\<close>,
  either an exception (\<open>NetworkFailure\<close>, with the thrown value as text) or a response with
  its status and parsed body. The body is the object the source casts \<^verbatim>\<open>data\<close> to (its
  optional fields; all absent when \<^verbatim>\<open>response.json()\<close> throws and \<^verbatim>\<open>data = {}\<close>),
  together with the payload returned as \<^verbatim>\<open>data as T\<close> on success. A body that is not an
  object is outside the platform's interface and is not modelled.
  The function returns the \<^verbatim>\<open>ApiResponse\<close> and the list of effects in order: each
  \<^verbatim>\<open>fetch\<close>, each \<^verbatim>\<open>sleep(ms)\<close> and the \<^verbatim>\<open>updateLastActive\<close> call. The source's
  messages are Chinese; they are given here in English.
\<close>

fun string_of_nat :: "nat \<Rightarrow> string" where
  "string_of_nat n =
     (if n < 10 then [char_of (48 + n)] else string_of_nat (n div 10) @ [char_of (48 + n mod 10)])"

definition string_of_int :: "int \<Rightarrow> string" where
  "string_of_int i = (if i < 0 then CHR ''-'' # string_of_nat (nat (- i)) else string_of_nat (nat i))"

definition is_space :: "char \<Rightarrow> bool" where
  "is_space c \<longleftrightarrow> c \<in> set [CHR '' '', CHR 0x09, CHR 0x0A, CHR 0x0B, CHR 0x0C, CHR 0x0D]"

definition trim :: "string \<Rightarrow> string" where
  "trim s = rev (dropWhile is_space (rev (dropWhile is_space s)))"



record debug_info =
  status :: "int option"
  endpoint :: "string option"
  retries :: "int option"
  requestedIdentity :: "string option"
  resolvedIdentity :: "string option"
  hasCurrentIdentity :: "bool option"

record rate_limit =
  retryAfterSeconds :: "int option"
  retryAfterMinutes :: "int option"
  dailyRemaining :: "int option"

record 'a ApiResponse =
  success :: bool
  data :: "'a option"
  error :: "string option"
  hint :: "string option"
  debug :: "debug_info option"
  rateLimit :: "rate_limit option"




definition DEFAULT_MAX_RETRIES :: int where "DEFAULT_MAX_RETRIES = 3"


definition or_else :: "string option \<Rightarrow> string \<Rightarrow> string" where
  "or_else v d = (case v of None \<Rightarrow> d | Some s \<Rightarrow> if s = [] then d else s)"



















section \<open>Capability dispatch and fallback search (src/src/agent.ts)\<close>

text \<open>
  Tool inputs and results are JSON values (\<^verbatim>\<open>unknown\<close> in the source). A JavaScript
  object is an association list read by key; \<open>JUndefined\<close> is the value of a missing
  property. \<open>truthy\<close>, \<open>typeof_object\<close> and \<open>js_string\<close> are JavaScript's truthiness,
  \<^verbatim>\<open>typeof v === "object"\<close> (true of \<^verbatim>\<open>null\<close> and of arrays) and the string conversion
  of a template literal. Strings are lists of 8-bit characters: \<open>toLowerCase\<close> lowers the
  ASCII letters and \<open>trim\<close> (above) strips ASCII whitespace.

  A registered tool is its name, its schema (\<^verbatim>\<open>parameters.parse\<close>, which returns the
  validated input or throws) and its handler. A handler does I/O: it reads and changes
  the outside world \<open>'w\<close> and returns a result or throws; a thrown value is kept as its
  text (\<open>Inl\<close>). The state threaded through a dispatch is the world and a log of what was
  invoked (\<open>calls\<close>): each handler call, and each entry into \<^verbatim>\<open>fallbackSearch\<close>. The
  source's Chinese messages are given in English.
\<close>

datatype json =
    JUndefined | JNull | JBool bool | JNum int | JStr string
  | JArr "json list" | JObj "(string \<times> json) list"

definition get_field :: "json \<Rightarrow> string \<Rightarrow> json" where
  "get_field v k = (case v of JObj kvs \<Rightarrow> (case map_of kvs k of Some x \<Rightarrow> x | None \<Rightarrow> JUndefined)
               | _ \<Rightarrow> JUndefined)"

definition truthy :: "json \<Rightarrow> bool" where
  "truthy v = (case v of JUndefined \<Rightarrow> False | JNull \<Rightarrow> False | JBool b \<Rightarrow> b
               | JNum n \<Rightarrow> n \<noteq> 0 | JStr s \<Rightarrow> s \<noteq> [] | JArr xs \<Rightarrow> True | JObj kvs \<Rightarrow> True)"

definition typeof_object :: "json \<Rightarrow> bool" where
  "typeof_object v = (case v of JNull \<Rightarrow> True | JArr xs \<Rightarrow> True | JObj kvs \<Rightarrow> True | _ \<Rightarrow> False)"

definition nullish :: "json \<Rightarrow> bool" where
  "nullish v = (v = JUndefined \<or> v = JNull)"

definition isArray :: "json \<Rightarrow> bool" where
  "isArray v = (case v of JArr xs \<Rightarrow> True | _ \<Rightarrow> False)"

definition elements :: "json \<Rightarrow> json list" where
  "elements v = (case v of JArr xs \<Rightarrow> xs | _ \<Rightarrow> [])"

definition coalesce :: "json \<Rightarrow> json \<Rightarrow> json" where
  "coalesce v d = (if nullish v then d else v)"

fun join_with :: "string \<Rightarrow> string list \<Rightarrow> string" where
  "join_with sep [] = []"
| "join_with sep [x] = x"
| "join_with sep (x # y # ys) = x @ sep @ join_with sep (y # ys)"

fun js_string :: "json \<Rightarrow> string" where
  "js_string JUndefined = ''undefined''"
| "js_string JNull = ''null''"
| "js_string (JBool b) = (if b then ''true'' else ''false'')"
| "js_string (JNum n) = string_of_int n"
| "js_string (JStr s) = s"
| "js_string (JArr xs) =
     join_with '','' (map (\<lambda>x. if x = JUndefined \<or> x = JNull then [] else js_string x) xs)"
| "js_string (JObj kvs) = ''[object Object]''"

definition lower_char :: "char \<Rightarrow> char" where
  "lower_char c =
     (if of_char c \<ge> (65::nat) \<and> of_char c \<le> (90::nat) then char_of (of_char c + (32::nat)) else c)"

definition toLowerCase :: "string \<Rightarrow> string" where
  "toLowerCase s = map lower_char s"

fun str_includes :: "string \<Rightarrow> string \<Rightarrow> bool" where
  "str_includes [] needle = (needle = [])"
| "str_includes (c # cs) needle = (prefix needle (c # cs) \<or> str_includes cs needle)"

text \<open>
  The dispatch state, the registry entry and the methods of \<^verbatim>\<open>OpenEchoAgent\<close> that dispatch
  a capability. \<open>server_fault_diagnostic\<close> is the part of \<^verbatim>\<open>isSearchFailure\<close> after its
  \<^verbatim>\<open>isToolFailure\<close> guard. \<open>executeTool\<close> and \<open>fallbackSearch\<close> call each other as in the
  source; the recursion ends because the fallback dispatches \<^verbatim>\<open>moltbook_get_feed\<close>, for
  which \<open>executeTool\<close> does not enter the fallback. An exception inside \<open>fallbackSearch\<close>
  (reading a property of a \<^verbatim>\<open>null\<close> feed item) is \<open>Inl\<close> and is caught by the
  \<^verbatim>\<open>try\<close> of the \<open>executeTool\<close> that called it.
\<close>

datatype call_event = HandlerCall string json | FallbackSearch json

record 'w exec_state =
  world :: 'w
  calls :: "call_event list"

record 'w ToolDefinition =
  name :: string
  parameters :: "json \<Rightarrow> string + json"
  handler :: "json \<Rightarrow> 'w \<Rightarrow> (string + json) \<times> 'w"

definition getTool :: "'w ToolDefinition list \<Rightarrow> string \<Rightarrow> 'w ToolDefinition option" where
  "getTool tools nm = find (\<lambda>t. name t = nm) tools"

definition isToolFailure :: "json \<Rightarrow> bool" where
  "isToolFailure result =
     (if \<not> truthy result \<or> \<not> typeof_object result then False
      else get_field result ''success'' = JBool False)"

definition server_fault_diagnostic :: "json \<Rightarrow> bool" where
  "server_fault_diagnostic r =
     (let err = (case get_field r ''error'' of JStr s \<Rightarrow> s | _ \<Rightarrow> []);
          status = (if nullish (get_field r ''debug'') then JUndefined
                    else get_field (get_field r ''debug'') ''status'')
      in str_includes (toLowerCase err) ''search failed'' \<or> status = JNum 500)"

definition isSearchFailure :: "json \<Rightarrow> bool" where
  "isSearchFailure result =
     (if \<not> isToolFailure result then False else server_fault_diagnostic result)"

definition extractSearchQuery :: "json \<Rightarrow> string" where
  "extractSearchQuery input = (case get_field input ''query'' of JStr q \<Rightarrow> q | _ \<Rightarrow> [])"

definition caught :: "string \<Rightarrow> json" where
  "caught e = JObj [(''error'', JStr (''tool execution failed: '' @ e))]"

definition haystack :: "json \<Rightarrow> string" where
  "haystack p =
     toLowerCase (js_string (coalesce (get_field p ''title'') (JStr []))
                  @ '' '' @ js_string (coalesce (get_field p ''content'') (JStr [])))"

definition fallback_item :: "json \<Rightarrow> json" where
  "fallback_item p =
     JObj [(''id'', get_field p ''id''), (''type'', JStr ''post''), (''title'', get_field p ''title''),
           (''content'', coalesce (get_field p ''content'') (JStr [])), (''similarity'', JNum 0),
           (''post_id'', get_field p ''id''), (''fallback'', JBool True)]"

definition fallback_note :: string where
  "fallback_note = ''Moltbook search is failing; matched the latest posts approximately (not a semantic search, results may be incomplete).''"

definition feed_unavailable :: string where
  "feed_unavailable = ''Search failed (fallback feed unavailable)''"

function executeTool ::
    "'w ToolDefinition list \<Rightarrow> string \<Rightarrow> json \<Rightarrow> 'w exec_state \<Rightarrow> json \<times> 'w exec_state"
  and fallbackSearch ::
    "'w ToolDefinition list \<Rightarrow> json \<Rightarrow> 'w exec_state \<Rightarrow> (string + json) \<times> 'w exec_state" where
  "executeTool tools nm input st =
     (case getTool tools nm of
        None \<Rightarrow> (JObj [(''error'', JStr (''unknown tool: '' @ nm))], st)
      | Some tool \<Rightarrow>
          (case parameters tool input of
             Inl e \<Rightarrow> (caught e, st)
           | Inr validatedInput \<Rightarrow>
               (case handler tool validatedInput (world st) of
                  (Inl e, w) \<Rightarrow>
                    (caught e, \<lparr>world = w, calls = calls st @ [HandlerCall nm validatedInput]\<rparr>)
                | (Inr result, w) \<Rightarrow>
                    (if nm = ''moltbook_search'' \<and> isSearchFailure result
                     then (case fallbackSearch tools validatedInput
                                  \<lparr>world = w, calls = calls st @ [HandlerCall nm validatedInput]\<rparr> of
                             (Inl e, st') \<Rightarrow> (caught e, st')
                           | (Inr r, st') \<Rightarrow> (r, st'))
                     else (result, \<lparr>world = w, calls = calls st @ [HandlerCall nm validatedInput]\<rparr>)))))"
| "fallbackSearch tools input st =
     (let query = extractSearchQuery input;
          (feed, st') = executeTool tools ''moltbook_get_feed''
                          (JObj [(''sort'', JStr ''new''), (''limit'', JNum 100)])
                          (st\<lparr>calls := calls st @ [FallbackSearch input]\<rparr>)
      in if \<not> truthy feed \<or> \<not> typeof_object feed then
           (Inr (JObj [(''success'', JBool False), (''error'', JStr feed_unavailable)]), st')
         else if \<not> truthy (get_field feed ''success'') \<or> \<not> isArray (get_field feed ''posts'') then
           (Inr (JObj [(''success'', JBool False), (''error'', JStr feed_unavailable),
                       (''original'', input)]), st')
         else
           let posts = elements (get_field feed ''posts'');
               q = toLowerCase (trim query)
           in if q \<noteq> [] \<and> list_ex nullish posts then
                (Inl ''TypeError: Cannot read properties of null'', st')
              else
                let matches = (if q \<noteq> [] then filter (\<lambda>p. str_includes (haystack p) q) posts else posts)
                in if list_ex nullish (take 20 matches) then
                     (Inl ''TypeError: Cannot read properties of null'', st')
                   else
                     (Inr (JObj [(''success'', JBool True),
                                 (''results'', JArr (map fallback_item (take 20 matches))),
                                 (''note'', JStr fallback_note),
                                 (''query'', JStr query)]), st'))"
  by pat_completeness auto

termination
  by (relation "measure (\<lambda>x. case x of
          Inl (tools, nm, input, st) \<Rightarrow> (if nm = ''moltbook_search'' then 2 else 0)
        | Inr (tools, input, st) \<Rightarrow> 1)") auto

declare executeTool.simps [simp del] fallbackSearch.simps [simp del]








definition start_state :: "unit exec_state" where
  "start_state = \<lparr>world = (), calls = []\<rparr>"








section \<open>Orchestration loop (src/src/agent.ts)\<close>

text \<open>
  The four loops \<^verbatim>\<open>chatStreamWithClaude\<close>, \<^verbatim>\<open>chatStreamWithOpenAI\<close>, \<^verbatim>\<open>chatWithClaude\<close> and
  \<^verbatim>\<open>chatWithOpenAI\<close> are \<^verbatim>\<open>while (turn < this.config.maxTurns)\<close> loops; each is a
  recursion on the turn counter that terminates because \<open>maxTurns - turn\<close> decreases.

  The model provider is a parameter: a function from the conversation sent and the
  outside world to what came back and the new world.
  \<^item> For the Claude protocol a response is the text deltas that arrived (\<open>deltas\<close>), the
    exception thrown by the stream or by \<^verbatim>\<open>finalMessage()\<close> if any (\<open>thrown\<close>; the deltas
    before it were already yielded), and the final message's content blocks and stop reason.
  \<^item> For the OpenAI streaming protocol it is the chunks that arrived, each with its
    \<^verbatim>\<open>choices[0]?.delta\<close> (\<open>None\<close> when absent), and the exception thrown if any.
  \<^item> For the non-streaming OpenAI call it is the reply message or the exception.
  \<^verbatim>\<open>JSON.parse\<close> is the parameter \<open>JSON_parse\<close> (\<open>None\<close> when it throws), and the system
  prompt is a parameter. \<^verbatim>\<open>JSON.stringify(result)\<close> in a tool-result message is kept as the
  result itself.

  A streaming run returns the events in the order they are yielded, the conversation and
  the dispatch state at the end, and \<open>rounds\<close>, the number of inference requests made
  (loop iterations); a non-streaming run returns the \<^verbatim>\<open>AgentResponse\<close> in place of the
  events. The \<^verbatim>\<open>Map\<close> of pending tool calls is an association list in insertion order.

  Every inference request and every handler is taken to return or to throw; a request
  that never returns is outside the model.
\<close>

record ToolCallResult =
  call_name :: string
  call_input :: json
  call_output :: json

datatype StreamEvent =
    Text string
  | ToolStart string
  | ToolEnd string json
  | Done "ToolCallResult list option"
  | Error string

record AgentResponse =
  response_text :: string
  response_toolCalls :: "ToolCallResult list option"
  needsContinue :: bool

record ('w, 'h) stream_run =
  events :: "StreamEvent list"
  history_after :: "'h list"
  state_after :: "'w exec_state"
  rounds :: nat

record ('w, 'h) chat_run =
  response :: AgentResponse
  chat_history_after :: "'h list"
  chat_state_after :: "'w exec_state"
  chat_rounds :: nat

text \<open>
  \<^verbatim>\<open>maxTurns: config.maxTurns || 10\<close> of the constructor, the
  \<^verbatim>\<open>toolCalls.length > 0 ? toolCalls : undefined\<close> of the results, the notice returned at the
  turn limit, and \<^verbatim>\<open>handleError\<close>.
\<close>

definition resolve_maxTurns :: "int option \<Rightarrow> int" where
  "resolve_maxTurns configured = (case configured of None \<Rightarrow> 10 | Some n \<Rightarrow> if n = 0 then 10 else n)"

definition some_if_any :: "ToolCallResult list \<Rightarrow> ToolCallResult list option" where
  "some_if_any toolCalls = (if length toolCalls > 0 then Some toolCalls else None)"

definition turn_limit_notice :: string where
  "turn_limit_notice = ''The conversation reached its turn limit; please start a new conversation.''"

definition handleError :: "string \<Rightarrow> string \<Rightarrow> ToolCallResult list \<Rightarrow> AgentResponse" where
  "handleError provider errorMessage toolCalls =
     (if str_includes errorMessage ''authentication'' \<or> str_includes errorMessage ''api_key''
         \<or> str_includes errorMessage ''401''
      then \<lparr>response_text = ''error: '' @ provider @ '' API key is invalid or not configured'',
            response_toolCalls = None, needsContinue = False\<rparr>
      else \<lparr>response_text = ''error while talking to the AI: '' @ errorMessage,
            response_toolCalls = some_if_any toolCalls, needsContinue = False\<rparr>)"

text \<open>
  The Claude protocol. \<open>tool_uses\<close> and \<open>text_blocks\<close> are the two
  \<^verbatim>\<open>content.filter(...)\<close>; \<open>stream_tool_uses\<close> and \<open>call_tool_uses\<close> are the
  \<^verbatim>\<open>for (const toolUse of toolUseBlocks)\<close> loops of the streaming and the non-streaming
  variant, with the events, \<^verbatim>\<open>toolCalls\<close>, \<^verbatim>\<open>toolResults\<close> and the dispatch state as
  accumulators.
\<close>

datatype content_block = TextBlock string | ToolUseBlock string string json | OtherBlock

record claude_response =
  deltas :: "string list"
  thrown :: "string option"
  blocks :: "content_block list"
  stop_reason :: string

datatype claude_message =
    UserText string
  | AssistantBlocks "content_block list"
  | UserToolResults "(string \<times> json) list"

type_synonym 'w claude_api = "claude_message list \<Rightarrow> 'w \<Rightarrow> claude_response \<times> 'w"

fun tool_uses :: "content_block list \<Rightarrow> (string \<times> string \<times> json) list" where
  "tool_uses [] = []"
| "tool_uses (ToolUseBlock tid nm inp # bs) = (tid, nm, inp) # tool_uses bs"
| "tool_uses (b # bs) = tool_uses bs"

fun text_blocks :: "content_block list \<Rightarrow> string list" where
  "text_blocks [] = []"
| "text_blocks (TextBlock t # bs) = t # text_blocks bs"
| "text_blocks (b # bs) = text_blocks bs"

fun stream_tool_uses ::
  "'w ToolDefinition list \<Rightarrow> (string \<times> string \<times> json) list
     \<Rightarrow> StreamEvent list \<times> ToolCallResult list \<times> (string \<times> json) list \<times> 'w exec_state
     \<Rightarrow> StreamEvent list \<times> ToolCallResult list \<times> (string \<times> json) list \<times> 'w exec_state" where
  "stream_tool_uses tools [] acc = acc"
| "stream_tool_uses tools ((tid, nm, inp) # rest) (evs, toolCalls, toolResults, st) =
     (let (result, st') = executeTool tools nm inp st
      in stream_tool_uses tools rest
           (evs @ [ToolStart nm, ToolEnd nm result],
            toolCalls @ [\<lparr>call_name = nm, call_input = inp, call_output = result\<rparr>],
            toolResults @ [(tid, result)],
            st'))"

function chatStreamWithClaude_loop ::
  "'w ToolDefinition list \<Rightarrow> 'w claude_api \<Rightarrow> int \<Rightarrow> int \<Rightarrow> claude_message list
     \<Rightarrow> ToolCallResult list \<Rightarrow> 'w exec_state \<Rightarrow> ('w, claude_message) stream_run" where
  "chatStreamWithClaude_loop tools api maxTurns turn conversationHistory toolCalls st =
     (if turn < maxTurns then
        (let (resp, w) = api conversationHistory (world st);
             st1 = st\<lparr>world := w\<rparr>;
             texts = map Text (deltas resp)
         in case thrown resp of
              Some errorMessage \<Rightarrow>
                \<lparr>events = texts @ [Error errorMessage], history_after = conversationHistory,
                 state_after = st1, rounds = 1\<rparr>
            | None \<Rightarrow>
                (let toolUseBlocks = tool_uses (blocks resp)
                 in if length toolUseBlocks = 0 then
                      \<lparr>events = texts @ [Done (some_if_any toolCalls)],
                       history_after = conversationHistory @ [AssistantBlocks (blocks resp)],
                       state_after = st1, rounds = 1\<rparr>
                    else
                      (let (evs, toolCalls', toolResults, st2) =
                             stream_tool_uses tools toolUseBlocks ([], toolCalls, [], st1);
                           history' = conversationHistory
                                        @ [AssistantBlocks (blocks resp), UserToolResults toolResults]
                       in if stop_reason resp = ''end_turn'' then
                            \<lparr>events = texts @ evs @ [Done (Some toolCalls')],
                             history_after = history', state_after = st2, rounds = 1\<rparr>
                          else
                            (let r = chatStreamWithClaude_loop tools api maxTurns (turn + 1)
                                       history' toolCalls' st2
                             in r\<lparr>events := texts @ evs @ events r, rounds := Suc (rounds r)\<rparr>))))
      else \<lparr>events = [Done (Some toolCalls)], history_after = conversationHistory,
            state_after = st, rounds = 0\<rparr>)"
  by pat_completeness auto

termination
  by (relation "measure (\<lambda>(tools, api, maxTurns, turn, rest). nat (maxTurns - turn))") auto

declare chatStreamWithClaude_loop.simps [simp del]

definition chatStreamWithClaude ::
  "'w ToolDefinition list \<Rightarrow> 'w claude_api option \<Rightarrow> int \<Rightarrow> claude_message list \<Rightarrow> string
     \<Rightarrow> 'w exec_state \<Rightarrow> ('w, claude_message) stream_run" where
  "chatStreamWithClaude tools anthropicClient maxTurns conversationHistory userMessage st =
     (case anthropicClient of
        None \<Rightarrow> \<lparr>events = [Error ''error: the Claude client is not initialised''],
                 history_after = conversationHistory, state_after = st, rounds = 0\<rparr>
      | Some api \<Rightarrow>
          chatStreamWithClaude_loop tools api maxTurns 0 (conversationHistory @ [UserText userMessage]) [] st)"

fun call_tool_uses ::
  "'w ToolDefinition list \<Rightarrow> (string \<times> string \<times> json) list
     \<Rightarrow> ToolCallResult list \<times> (string \<times> json) list \<times> 'w exec_state
     \<Rightarrow> ToolCallResult list \<times> (string \<times> json) list \<times> 'w exec_state" where
  "call_tool_uses tools [] acc = acc"
| "call_tool_uses tools ((tid, nm, inp) # rest) (toolCalls, toolResults, st) =
     (let (result, st') = executeTool tools nm inp st
      in call_tool_uses tools rest
           (toolCalls @ [\<lparr>call_name = nm, call_input = inp, call_output = result\<rparr>],
            toolResults @ [(tid, result)],
            st'))"

function chatWithClaude_loop ::
  "'w ToolDefinition list \<Rightarrow> 'w claude_api \<Rightarrow> string \<Rightarrow> int \<Rightarrow> int \<Rightarrow> claude_message list
     \<Rightarrow> ToolCallResult list \<Rightarrow> 'w exec_state \<Rightarrow> ('w, claude_message) chat_run" where
  "chatWithClaude_loop tools api provider maxTurns turn conversationHistory toolCalls st =
     (if turn < maxTurns then
        (let (resp, w) = api conversationHistory (world st);
             st1 = st\<lparr>world := w\<rparr>
         in case thrown resp of
              Some errorMessage \<Rightarrow>
                \<lparr>response = handleError provider errorMessage toolCalls,
                 chat_history_after = conversationHistory, chat_state_after = st1, chat_rounds = 1\<rparr>
            | None \<Rightarrow>
                (let toolUseBlocks = tool_uses (blocks resp);
                     textResponse = join_with [CHR 0x0A] (text_blocks (blocks resp))
                 in if length toolUseBlocks = 0 then
                      \<lparr>response = \<lparr>response_text = textResponse,
                                    response_toolCalls = some_if_any toolCalls, needsContinue = False\<rparr>,
                       chat_history_after = conversationHistory @ [AssistantBlocks (blocks resp)],
                       chat_state_after = st1, chat_rounds = 1\<rparr>
                    else
                      (let (toolCalls', toolResults, st2) =
                             call_tool_uses tools toolUseBlocks (toolCalls, [], st1);
                           history' = conversationHistory
                                        @ [AssistantBlocks (blocks resp), UserToolResults toolResults]
                       in if stop_reason resp = ''end_turn'' then
                            \<lparr>response = \<lparr>response_text = textResponse,
                                          response_toolCalls = Some toolCalls', needsContinue = False\<rparr>,
                             chat_history_after = history', chat_state_after = st2, chat_rounds = 1\<rparr>
                          else
                            (let r = chatWithClaude_loop tools api provider maxTurns (turn + 1)
                                       history' toolCalls' st2
                             in r\<lparr>chat_rounds := Suc (chat_rounds r)\<rparr>))))
      else \<lparr>response = \<lparr>response_text = turn_limit_notice, response_toolCalls = Some toolCalls,
                         needsContinue = True\<rparr>,
            chat_history_after = conversationHistory, chat_state_after = st, chat_rounds = 0\<rparr>)"
  by pat_completeness auto

termination
  by (relation "measure (\<lambda>(tools, api, provider, maxTurns, turn, rest). nat (maxTurns - turn))") auto

declare chatWithClaude_loop.simps [simp del]

definition chatWithClaude ::
  "'w ToolDefinition list \<Rightarrow> 'w claude_api option \<Rightarrow> string \<Rightarrow> int \<Rightarrow> claude_message list \<Rightarrow> string
     \<Rightarrow> 'w exec_state \<Rightarrow> ('w, claude_message) chat_run" where
  "chatWithClaude tools anthropicClient provider maxTurns conversationHistory userMessage st =
     (case anthropicClient of
        None \<Rightarrow> \<lparr>response = \<lparr>response_text = ''error: the Claude client is not initialised'',
                               response_toolCalls = None, needsContinue = False\<rparr>,
                 chat_history_after = conversationHistory, chat_state_after = st, chat_rounds = 0\<rparr>
      | Some api \<Rightarrow>
          chatWithClaude_loop tools api provider maxTurns 0
            (conversationHistory @ [UserText userMessage]) [] st)"

text \<open>
  The OpenAI protocol. \<open>merge_tool_call\<close> is the body of
  \<^verbatim>\<open>for (const tc of delta.tool_calls)\<close>, \<open>read_chunk\<close> the body of
  \<^verbatim>\<open>for await (const chunk of stream)\<close> with the events, \<^verbatim>\<open>fullText\<close> and the pending calls
  as accumulators, \<open>parse_arguments\<close> the \<^verbatim>\<open>try { JSON.parse } catch { {} }\<close>, and
  \<open>stream_pending_calls\<close> and \<open>call_pending_calls\<close> the loops that execute the tool calls.
\<close>

record tool_call_delta =
  delta_index :: int
  delta_id :: "string option"
  delta_name :: "string option"
  delta_arguments :: "string option"

record chunk_delta =
  delta_content :: "string option"
  delta_tool_calls :: "tool_call_delta list option"

record openai_stream =
  chunks :: "chunk_delta option list"
  stream_thrown :: "string option"

record pending_call =
  pending_id :: string
  pending_name :: string
  pending_arguments :: string

record openai_reply =
  reply_content :: "string option"
  reply_tool_calls :: "pending_call list option"

datatype openai_message =
    SystemMessage string
  | UserMessage string
  | AssistantToolCalls "string option" "pending_call list"
  | AssistantMessage string
  | AssistantReply openai_reply
  | ToolMessage string json

type_synonym 'w openai_stream_api = "openai_message list \<Rightarrow> 'w \<Rightarrow> openai_stream \<times> 'w"

type_synonym 'w openai_api = "openai_message list \<Rightarrow> 'w \<Rightarrow> (string + openai_reply) \<times> 'w"

definition merge_tool_call :: "tool_call_delta \<Rightarrow> (int \<times> pending_call) list \<Rightarrow> (int \<times> pending_call) list" where
  "merge_tool_call tc pendingToolCalls =
     (let idx = delta_index tc;
          withEntry =
            (if map_of pendingToolCalls idx = None
             then pendingToolCalls
                    @ [(idx, \<lparr>pending_id = or_else (delta_id tc) [],
                              pending_name = or_else (delta_name tc) [],
                              pending_arguments = []\<rparr>)]
             else pendingToolCalls)
      in map (\<lambda>(i, pending).
                if i = idx
                then (i, pending\<lparr>pending_id := or_else (delta_id tc) (pending_id pending),
                                 pending_name := or_else (delta_name tc) (pending_name pending),
                                 pending_arguments :=
                                   pending_arguments pending @ or_else (delta_arguments tc) []\<rparr>)
                else (i, pending))
           withEntry)"

definition read_chunk ::
  "StreamEvent list \<times> string \<times> (int \<times> pending_call) list \<Rightarrow> chunk_delta option
     \<Rightarrow> StreamEvent list \<times> string \<times> (int \<times> pending_call) list" where
  "read_chunk acc chunk =
     (case acc of (evs, fullText, pendingToolCalls) \<Rightarrow>
        (case chunk of
           None \<Rightarrow> (evs, fullText, pendingToolCalls)
         | Some delta \<Rightarrow>
             (let c = or_else (delta_content delta) [];
                  evs' = (if c \<noteq> [] then evs @ [Text c] else evs);
                  fullText' = (if c \<noteq> [] then fullText @ c else fullText);
                  pending' = (case delta_tool_calls delta of
                                None \<Rightarrow> pendingToolCalls
                              | Some tcs \<Rightarrow> foldl (\<lambda>p tc. merge_tool_call tc p) pendingToolCalls tcs)
              in (evs', fullText', pending'))))"

definition parse_arguments :: "(string \<Rightarrow> json option) \<Rightarrow> string \<Rightarrow> json" where
  "parse_arguments JSON_parse arguments =
     (case JSON_parse arguments of Some v \<Rightarrow> v | None \<Rightarrow> JObj [])"

fun stream_pending_calls ::
  "'w ToolDefinition list \<Rightarrow> (string \<Rightarrow> json option) \<Rightarrow> pending_call list
     \<Rightarrow> StreamEvent list \<times> ToolCallResult list \<times> openai_message list \<times> 'w exec_state
     \<Rightarrow> StreamEvent list \<times> ToolCallResult list \<times> openai_message list \<times> 'w exec_state" where
  "stream_pending_calls tools JSON_parse [] acc = acc"
| "stream_pending_calls tools JSON_parse (tc # rest) (evs, toolCalls, openaiHistory, st) =
     (let functionArgs = parse_arguments JSON_parse (pending_arguments tc);
          (result, st') = executeTool tools (pending_name tc) functionArgs st
      in stream_pending_calls tools JSON_parse rest
           (evs @ [ToolStart (pending_name tc), ToolEnd (pending_name tc) result],
            toolCalls @ [\<lparr>call_name = pending_name tc, call_input = functionArgs, call_output = result\<rparr>],
            openaiHistory @ [ToolMessage (pending_id tc) result],
            st'))"

function chatStreamWithOpenAI_loop ::
  "'w ToolDefinition list \<Rightarrow> (string \<Rightarrow> json option) \<Rightarrow> 'w openai_stream_api \<Rightarrow> int \<Rightarrow> int
     \<Rightarrow> openai_message list \<Rightarrow> ToolCallResult list \<Rightarrow> 'w exec_state \<Rightarrow> ('w, openai_message) stream_run" where
  "chatStreamWithOpenAI_loop tools JSON_parse api maxTurns turn openaiHistory toolCalls st =
     (if turn < maxTurns then
        (let (resp, w) = api openaiHistory (world st);
             st1 = st\<lparr>world := w\<rparr>;
             (texts, fullText, pendingToolCalls) = foldl read_chunk ([], [], []) (chunks resp)
         in case stream_thrown resp of
              Some errorMessage \<Rightarrow>
                \<lparr>events = texts @ [Error errorMessage], history_after = openaiHistory,
                 state_after = st1, rounds = 1\<rparr>
            | None \<Rightarrow>
                if length pendingToolCalls > 0 then
                  (let history1 = openaiHistory
                         @ [AssistantToolCalls (if fullText = [] then None else Some fullText)
                              (map snd pendingToolCalls)];
                       (evs, toolCalls', history2, st2) =
                         stream_pending_calls tools JSON_parse (map snd pendingToolCalls)
                           ([], toolCalls, history1, st1);
                       r = chatStreamWithOpenAI_loop tools JSON_parse api maxTurns (turn + 1)
                             history2 toolCalls' st2
                   in r\<lparr>events := texts @ evs @ events r, rounds := Suc (rounds r)\<rparr>)
                else
                  \<lparr>events = texts @ [Done (some_if_any toolCalls)],
                   history_after = openaiHistory @ [AssistantMessage fullText],
                   state_after = st1, rounds = 1\<rparr>)
      else \<lparr>events = [Done (Some toolCalls)], history_after = openaiHistory,
            state_after = st, rounds = 0\<rparr>)"
  by pat_completeness auto

termination
  by (relation "measure (\<lambda>(tools, JSON_parse, api, maxTurns, turn, rest). nat (maxTurns - turn))") auto

declare chatStreamWithOpenAI_loop.simps [simp del]

definition open_conversation :: "string \<Rightarrow> openai_message list \<Rightarrow> string \<Rightarrow> openai_message list" where
  "open_conversation systemPrompt openaiHistory userMessage =
     (if length openaiHistory = 0 then [SystemMessage systemPrompt] else openaiHistory)
       @ [UserMessage userMessage]"

definition chatStreamWithOpenAI ::
  "'w ToolDefinition list \<Rightarrow> (string \<Rightarrow> json option) \<Rightarrow> 'w openai_stream_api option \<Rightarrow> string \<Rightarrow> int
     \<Rightarrow> openai_message list \<Rightarrow> string \<Rightarrow> 'w exec_state \<Rightarrow> ('w, openai_message) stream_run" where
  "chatStreamWithOpenAI tools JSON_parse openaiClient systemPrompt maxTurns openaiHistory userMessage st =
     (case openaiClient of
        None \<Rightarrow> \<lparr>events = [Error ''error: the OpenAI client is not initialised''],
                 history_after = openaiHistory, state_after = st, rounds = 0\<rparr>
      | Some api \<Rightarrow>
          chatStreamWithOpenAI_loop tools JSON_parse api maxTurns 0
            (open_conversation systemPrompt openaiHistory userMessage) [] st)"

fun call_pending_calls ::
  "'w ToolDefinition list \<Rightarrow> (string \<Rightarrow> json option) \<Rightarrow> pending_call list
     \<Rightarrow> ToolCallResult list \<times> openai_message list \<times> 'w exec_state
     \<Rightarrow> ToolCallResult list \<times> openai_message list \<times> 'w exec_state" where
  "call_pending_calls tools JSON_parse [] acc = acc"
| "call_pending_calls tools JSON_parse (toolCall # rest) (toolCalls, openaiHistory, st) =
     (let functionName = pending_name toolCall;
          functionArgs = parse_arguments JSON_parse (pending_arguments toolCall);
          (result, st') = executeTool tools functionName functionArgs st
      in call_pending_calls tools JSON_parse rest
           (toolCalls @ [\<lparr>call_name = functionName, call_input = functionArgs, call_output = result\<rparr>],
            openaiHistory @ [ToolMessage (pending_id toolCall) result],
            st'))"

function chatWithOpenAI_loop ::
  "'w ToolDefinition list \<Rightarrow> (string \<Rightarrow> json option) \<Rightarrow> 'w openai_api \<Rightarrow> string \<Rightarrow> int \<Rightarrow> int
     \<Rightarrow> openai_message list \<Rightarrow> ToolCallResult list \<Rightarrow> 'w exec_state \<Rightarrow> ('w, openai_message) chat_run" where
  "chatWithOpenAI_loop tools JSON_parse api provider maxTurns turn openaiHistory toolCalls st =
     (if turn < maxTurns then
        (let (resp, w) = api openaiHistory (world st);
             st1 = st\<lparr>world := w\<rparr>
         in case resp of
              Inl errorMessage \<Rightarrow>
                \<lparr>response = handleError provider errorMessage toolCalls,
                 chat_history_after = openaiHistory, chat_state_after = st1, chat_rounds = 1\<rparr>
            | Inr message \<Rightarrow>
                (let history1 = openaiHistory @ [AssistantReply message]
                 in case reply_tool_calls message of
                      None \<Rightarrow>
                        \<lparr>response = \<lparr>response_text = or_else (reply_content message) [],
                                      response_toolCalls = some_if_any toolCalls, needsContinue = False\<rparr>,
                         chat_history_after = history1, chat_state_after = st1, chat_rounds = 1\<rparr>
                    | Some tool_calls \<Rightarrow>
                        if length tool_calls > 0 then
                          (let (toolCalls', history2, st2) =
                                 call_pending_calls tools JSON_parse tool_calls (toolCalls, history1, st1);
                               r = chatWithOpenAI_loop tools JSON_parse api provider maxTurns (turn + 1)
                                     history2 toolCalls' st2
                           in r\<lparr>chat_rounds := Suc (chat_rounds r)\<rparr>)
                        else
                          \<lparr>response = \<lparr>response_text = or_else (reply_content message) [],
                                        response_toolCalls = some_if_any toolCalls, needsContinue = False\<rparr>,
                           chat_history_after = history1, chat_state_after = st1, chat_rounds = 1\<rparr>))
      else \<lparr>response = \<lparr>response_text = turn_limit_notice, response_toolCalls = Some toolCalls,
                         needsContinue = True\<rparr>,
            chat_history_after = openaiHistory, chat_state_after = st, chat_rounds = 0\<rparr>)"
  by pat_completeness auto

termination
  by (relation "measure (\<lambda>(tools, JSON_parse, api, provider, maxTurns, turn, rest). nat (maxTurns - turn))") auto

declare chatWithOpenAI_loop.simps [simp del]

definition chatWithOpenAI ::
  "'w ToolDefinition list \<Rightarrow> (string \<Rightarrow> json option) \<Rightarrow> 'w openai_api option \<Rightarrow> string \<Rightarrow> string \<Rightarrow> int
     \<Rightarrow> openai_message list \<Rightarrow> string \<Rightarrow> 'w exec_state \<Rightarrow> ('w, openai_message) chat_run" where
  "chatWithOpenAI tools JSON_parse openaiClient provider systemPrompt maxTurns openaiHistory userMessage st =
     (case openaiClient of
        None \<Rightarrow> \<lparr>response = \<lparr>response_text = ''error: the OpenAI client is not initialised'',
                               response_toolCalls = None, needsContinue = False\<rparr>,
                 chat_history_after = openaiHistory, chat_state_after = st, chat_rounds = 0\<rparr>
      | Some api \<Rightarrow>
          chatWithOpenAI_loop tools JSON_parse api provider maxTurns 0
            (open_conversation systemPrompt openaiHistory userMessage) [] st)"

text \<open>\<^verbatim>\<open>chatStream\<close> chooses the implementation by the configured provider.\<close>

definition chatStream ::
  "'w ToolDefinition list \<Rightarrow> (string \<Rightarrow> json option) \<Rightarrow> string
     \<Rightarrow> 'w claude_api option \<Rightarrow> 'w openai_stream_api option \<Rightarrow> string \<Rightarrow> int
     \<Rightarrow> claude_message list \<Rightarrow> openai_message list \<Rightarrow> string \<Rightarrow> 'w exec_state
     \<Rightarrow> StreamEvent list" where
  "chatStream tools JSON_parse provider anthropicClient openaiClient systemPrompt maxTurns
       conversationHistory openaiHistory userMessage st =
     (if provider = ''claude''
      then events (chatStreamWithClaude tools anthropicClient maxTurns conversationHistory userMessage st)
      else events (chatStreamWithOpenAI tools JSON_parse openaiClient systemPrompt maxTurns
                     openaiHistory userMessage st))"

text \<open>
  For stating the order of events. \<open>paired\<close> holds of a list of text events and adjacent
  pairs \<open>ToolStart n, ToolEnd n r\<close>; a stream is well formed when it is such a list
  followed by one terminal event. \<open>dispatch_all\<close> dispatches invocations one after the other
  and returns their results in order; \<open>invocation_events\<close> is the pair of events of each
  invocation with its result. The invocations a response requests are \<open>requested_uses\<close>
  (Claude: the \<^verbatim>\<open>tool_use\<close> blocks) and \<open>requested_calls\<close> (OpenAI: the pending calls after
  all chunks, with their arguments parsed); \<open>stream_texts\<close> and \<open>full_text\<close> are the text
  events and the text accumulated from the chunks.
\<close>

fun paired :: "StreamEvent list \<Rightarrow> bool" where
  "paired [] = True"
| "paired (Text t # es) = paired es"
| "paired (ToolStart n # ToolEnd m r # es) = (n = m \<and> paired es)"
| "paired es = False"

definition is_terminal :: "StreamEvent \<Rightarrow> bool" where
  "is_terminal e = (case e of Done tcs \<Rightarrow> True | Error m \<Rightarrow> True | _ \<Rightarrow> False)"

definition well_formed_stream :: "StreamEvent list \<Rightarrow> bool" where
  "well_formed_stream es \<longleftrightarrow> es \<noteq> [] \<and> is_terminal (last es) \<and> paired (butlast es)"

fun dispatch_all ::
  "'w ToolDefinition list \<Rightarrow> (string \<times> json) list \<Rightarrow> 'w exec_state \<Rightarrow> json list \<times> 'w exec_state" where
  "dispatch_all tools [] st = ([], st)"
| "dispatch_all tools ((nm, inp) # rest) st =
     (let (result, st') = executeTool tools nm inp st;
          (results, st'') = dispatch_all tools rest st'
      in (result # results, st''))"

definition invocation_events :: "(string \<times> json) list \<Rightarrow> json list \<Rightarrow> StreamEvent list" where
  "invocation_events invocations results =
     concat (map (\<lambda>((nm, inp), result). [ToolStart nm, ToolEnd nm result]) (zip invocations results))"

definition requested_uses :: "content_block list \<Rightarrow> (string \<times> json) list" where
  "requested_uses bs = map (\<lambda>(tid, nm, inp). (nm, inp)) (tool_uses bs)"

definition stream_texts :: "chunk_delta option list \<Rightarrow> StreamEvent list" where
  "stream_texts cs = fst (foldl read_chunk ([], [], []) cs)"

definition pending_calls :: "chunk_delta option list \<Rightarrow> pending_call list" where
  "pending_calls cs = map snd (snd (snd (foldl read_chunk ([], [], []) cs)))"

definition full_text :: "chunk_delta option list \<Rightarrow> string" where
  "full_text cs = fst (snd (foldl read_chunk ([], [], []) cs))"

definition requested_calls :: "(string \<Rightarrow> json option) \<Rightarrow> chunk_delta option list \<Rightarrow> (string \<times> json) list" where
  "requested_calls JSON_parse cs =
     map (\<lambda>tc. (pending_name tc, parse_arguments JSON_parse (pending_arguments tc))) (pending_calls cs)"

definition is_text :: "StreamEvent \<Rightarrow> bool" where
  "is_text e = (case e of Text t \<Rightarrow> True | _ \<Rightarrow> False)"

text \<open>
  The specification's scenario: the capability \<^verbatim>\<open>echo\<close>, a capability \<^verbatim>\<open>ping\<close> without
  required fields, and models that request a tool on the first round and answer with
  text on the second. \<open>parse_empty_object\<close> stands for \<^verbatim>\<open>JSON.parse\<close> on the two argument
  strings used: it parses \<^verbatim>\<open>"{}"\<close> and rejects \<^verbatim>\<open>"{"\<close>.
\<close>

definition echo_tool :: "unit ToolDefinition" where
  "echo_tool =
     \<lparr>name = ''echo'',
      parameters = (\<lambda>i. case get_field i ''text'' of JStr t \<Rightarrow> Inr i | _ \<Rightarrow> Inl ''ZodError: text: Required''),
      handler = (\<lambda>i w. (Inr (JObj [(''success'', JBool True), (''text'', get_field i ''text'')]), w))\<rparr>"

definition ping_tool :: "unit ToolDefinition" where
  "ping_tool =
     \<lparr>name = ''ping'', parameters = (\<lambda>i. Inr i),
      handler = (\<lambda>i w. (Inr (JObj [(''success'', JBool True)]), w))\<rparr>"

definition echo_request :: claude_response where
  "echo_request =
     \<lparr>deltas = [], thrown = None,
      blocks = [ToolUseBlock ''toolu_1'' ''echo'' (JObj [(''text'', JStr ''hi'')])],
      stop_reason = ''tool_use''\<rparr>"

definition plain_done :: claude_response where
  "plain_done = \<lparr>deltas = [''done''], thrown = None, blocks = [TextBlock ''done''], stop_reason = ''end_turn''\<rparr>"

definition scenario_claude :: "unit claude_api" where
  "scenario_claude h w = (if length h = 1 then (echo_request, w) else (plain_done, w))"

definition ping_request :: openai_stream where
  "ping_request =
     \<lparr>chunks = [Some \<lparr>delta_content = None,
                        delta_tool_calls = Some [\<lparr>delta_index = 0, delta_id = Some ''call_1'',
                                                  delta_name = Some ''ping'', delta_arguments = Some ''{''\<rparr>]\<rparr>,
                  Some \<lparr>delta_content = None,
                        delta_tool_calls = Some [\<lparr>delta_index = 0, delta_id = None,
                                                  delta_name = None, delta_arguments = Some ''}''\<rparr>]\<rparr>],
      stream_thrown = None\<rparr>"

definition plain_done_stream :: openai_stream where
  "plain_done_stream =
     \<lparr>chunks = [Some \<lparr>delta_content = Some ''do'', delta_tool_calls = None\<rparr>, None,
                  Some \<lparr>delta_content = Some ''ne'', delta_tool_calls = None\<rparr>],
      stream_thrown = None\<rparr>"

definition scenario_openai :: "unit openai_stream_api" where
  "scenario_openai h w = (if length h = 2 then (ping_request, w) else (plain_done_stream, w))"

definition parse_empty_object :: "string \<Rightarrow> json option" where
  "parse_empty_object s = (if s = ''{}'' then Some (JObj []) else None)"

text \<open>
  Models that request at least one capability invocation on every round, whatever
  conversation they are sent, and Claude models that never report the stop reason
  \<^verbatim>\<open>end_turn\<close>.
\<close>

definition always_requests_tools :: "'w claude_api \<Rightarrow> bool" where
  "always_requests_tools api \<longleftrightarrow>
     (\<forall>h w. thrown (fst (api h w)) = None \<and> tool_uses (blocks (fst (api h w))) \<noteq> [])"

definition never_ends_turn :: "'w claude_api \<Rightarrow> bool" where
  "never_ends_turn api \<longleftrightarrow> (\<forall>h w. stop_reason (fst (api h w)) \<noteq> ''end_turn'')"

definition always_streams_tool_calls :: "'w openai_stream_api \<Rightarrow> bool" where
  "always_streams_tool_calls api \<longleftrightarrow>
     (\<forall>h w. stream_thrown (fst (api h w)) = None \<and> pending_calls (chunks (fst (api h w))) \<noteq> [])"

definition always_replies_tool_calls :: "'w openai_api \<Rightarrow> bool" where
  "always_replies_tool_calls api \<longleftrightarrow>
     (\<forall>h w. \<exists>message tcs. fst (api h w) = Inr message \<and> reply_tool_calls message = Some tcs \<and> tcs \<noteq> [])"

text \<open>
  What a round leaves behind: the entries it adds to \<^verbatim>\<open>toolCalls\<close>, the results of its
  invocations, the dispatch state after them, and the conversation with the assistant
  message and the tool results appended.
\<close>

definition recorded_calls :: "(string \<times> json) list \<Rightarrow> json list \<Rightarrow> ToolCallResult list" where
  "recorded_calls invocations results =
     map (\<lambda>((nm, inp), result). \<lparr>call_name = nm, call_input = inp, call_output = result\<rparr>)
       (zip invocations results)"

definition claude_round_results :: "'w ToolDefinition list \<Rightarrow> claude_response \<Rightarrow> 'w exec_state \<Rightarrow> json list" where
  "claude_round_results tools resp st = fst (dispatch_all tools (requested_uses (blocks resp)) st)"

definition claude_round_state :: "'w ToolDefinition list \<Rightarrow> claude_response \<Rightarrow> 'w exec_state \<Rightarrow> 'w exec_state" where
  "claude_round_state tools resp st = snd (dispatch_all tools (requested_uses (blocks resp)) st)"

definition claude_round_history ::
  "claude_message list \<Rightarrow> claude_response \<Rightarrow> json list \<Rightarrow> claude_message list" where
  "claude_round_history h resp results =
     h @ [AssistantBlocks (blocks resp),
          UserToolResults (zip (map fst (tool_uses (blocks resp))) results)]"

definition requested_of :: "(string \<Rightarrow> json option) \<Rightarrow> pending_call list \<Rightarrow> (string \<times> json) list" where
  "requested_of JSON_parse pcs =
     map (\<lambda>tc. (pending_name tc, parse_arguments JSON_parse (pending_arguments tc))) pcs"

definition tool_messages :: "pending_call list \<Rightarrow> json list \<Rightarrow> openai_message list" where
  "tool_messages pcs results = map (\<lambda>(tc, result). ToolMessage (pending_id tc) result) (zip pcs results)"

text \<open>
  Models that request a tool on every round, one of them with the stop reason
  \<^verbatim>\<open>end_turn\<close>; a tool whose handler throws; providers whose request fails after some
  text; and a model whose tool-call arguments never close.
\<close>

definition insistent_claude :: "unit claude_api" where
  "insistent_claude h w = (echo_request, w)"

definition end_turn_claude :: "unit claude_api" where
  "end_turn_claude h w = (echo_request\<lparr>stop_reason := ''end_turn''\<rparr>, w)"

definition insistent_stream :: "unit openai_stream_api" where
  "insistent_stream h w = (ping_request, w)"

definition insistent_reply :: "unit openai_api" where
  "insistent_reply h w =
     (Inr \<lparr>reply_content = None,
           reply_tool_calls = Some [\<lparr>pending_id = ''call_1'', pending_name = ''ping'',
                                     pending_arguments = ''{}''\<rparr>]\<rparr>, w)"

definition failing_tool :: "unit ToolDefinition" where
  "failing_tool =
     \<lparr>name = ''broken'', parameters = (\<lambda>i. Inr i), handler = (\<lambda>i w. (Inl ''Error: boom'', w))\<rparr>"

definition failing_claude :: "unit claude_api" where
  "failing_claude h w = (\<lparr>deltas = [''par''], thrown = Some ''overloaded'', blocks = [], stop_reason = []\<rparr>, w)"

definition failing_stream :: "unit openai_stream_api" where
  "failing_stream h w =
     (\<lparr>chunks = [Some \<lparr>delta_content = Some ''par'', delta_tool_calls = None\<rparr>],
       stream_thrown = Some ''overloaded''\<rparr>, w)"

definition unclosed_ping_request :: openai_stream where
  "unclosed_ping_request =
     \<lparr>chunks = [Some \<lparr>delta_content = None,
                        delta_tool_calls = Some [\<lparr>delta_index = 0, delta_id = Some ''call_1'',
                                                  delta_name = Some ''ping'', delta_arguments = Some ''{''\<rparr>]\<rparr>],
      stream_thrown = None\<rparr>"

definition unclosed_arguments_stream :: "unit openai_stream_api" where
  "unclosed_arguments_stream h w =
     (if length h = 2 then (unclosed_ping_request, w) else (plain_done_stream, w))"

section \<open>Theorems\<close>

subsection \<open>Cooldown tracker\<close>

text \<open>
  Claim C6. \<open>canPost\<close> is true iff no prior post is recorded or at least 30 minutes
  (1800000 ms) have elapsed since the recorded post; \<open>canComment\<close> is the same with 20
  seconds (20000 ms). After \<open>recordPost\<close> at time \<open>now\<close>, \<open>canPost\<close> read at the same
  instant is false, and read at any time \<open>later\<close> it is true exactly when
  \<open>later - now\<close> is at least 30 minutes.
\<close>

theorem canPost_canComment_cooldown:
  "(canPost now st \<longleftrightarrow>
      (lastPost st = NoTime \<or> (\<exists>t. lastPost st = Time t \<and> now - t \<ge> 30 * 60 * 1000)))
   \<and> (canComment now st \<longleftrightarrow>
      (lastComment st = NoTime \<or> (\<exists>t. lastComment st = Time t \<and> now - t \<ge> 20 * 1000)))
   \<and> \<not> canPost now (recordPost now st)
   \<and> (canPost later (recordPost now st) \<longleftrightarrow> later - now \<ge> 30 * 60 * 1000)"
  by (simp add: canPost_def canComment_def recordPost_def split: iso_time.splits)

subsection \<open>Heartbeat schedule\<close>

text \<open>
  Claim C10. For every interval argument \<open>i\<close>, \<open>shouldRunHeartbeat i\<close> is true iff no
  prior check is recorded or the time elapsed since the recorded check is at least
  \<open>max i\<close> (1 hour); so whatever interval the caller passes, it is false while less than
  one hour (3600000 ms) has elapsed since the recorded check.
\<close>

theorem shouldRunHeartbeat_clamped:
  "(shouldRunHeartbeat i now st \<longleftrightarrow>
      (lastCheck st = NoTime \<or> (\<exists>t. lastCheck st = Time t \<and> now - t \<ge> max i (60 * 60 * 1000))))
   \<and> (lastCheck st = Time t0 \<and> now - t0 < 60 * 60 * 1000 \<longrightarrow> \<not> shouldRunHeartbeat i now st)"
  by (auto simp add: shouldRunHeartbeat_def MIN_HEARTBEAT_INTERVAL_MS_def split: iso_time.splits)

theorem shouldRunHeartbeat_clamped_witness:
  "lastCheck \<lparr>lastCheck = Time 1000, lastPost = NoTime, lastComment = NoTime, checkCount = 1\<rparr> = Time 1000
   \<and> (3000000::int) - 1000 < 60 * 60 * 1000
   \<and> \<not> shouldRunHeartbeat 1 3000000
        \<lparr>lastCheck = Time 1000, lastPost = NoTime, lastComment = NoTime, checkCount = 1\<rparr>
   \<and> shouldRunHeartbeat 1 3601000
        \<lparr>lastCheck = Time 1000, lastPost = NoTime, lastComment = NoTime, checkCount = 1\<rparr>"
  using shouldRunHeartbeat_clamped [of 1 3000000
      "\<lparr>lastCheck = Time 1000, lastPost = NoTime, lastComment = NoTime, checkCount = 1\<rparr>" 1000]
    shouldRunHeartbeat_clamped [of 1 3601000
      "\<lparr>lastCheck = Time 1000, lastPost = NoTime, lastComment = NoTime, checkCount = 1\<rparr>" 1000]
  by simp

subsection \<open>Sentiment classification\<close>

lemma filter_disjoint_length:
  "(\<And>x. \<not> (P x \<and> Q x)) \<Longrightarrow> length (filter P xs) + length (filter Q xs) \<le> length xs"
  by (induction xs) auto

lemma class_count_sum: "class_count positive posts + class_count negative posts \<le> length posts"
  unfolding class_count_def by (rule filter_disjoint_length) auto

lemma post_sentiment_ratio:
  "ratio (post_sentiment p) =
     (if upvotes p + downvotes p > 0
      then real_of_int (upvotes p) / real_of_int (upvotes p + downvotes p) else 1 / 2)"
  by (simp add: post_sentiment_def Let_def)

lemma post_sentiment_class:
  "sentiment (post_sentiment p) =
     (if ratio (post_sentiment p) > 0.6 then positive
      else if ratio (post_sentiment p) < 0.4 then negative else neutral)"
  by (simp add: post_sentiment_def Let_def)

lemma analyze_sentiment_overall:
  assumes "posts \<noteq> []"
  shows "\<exists>s. analyze_sentiment posts = Inr s \<and> details s = map post_sentiment posts
     \<and> overall s =
        (if real (class_count positive posts) > real (length posts) * 0.6 then overall_positive
         else if real (class_count negative posts) > real (length posts) * 0.6 then overall_negative
         else if class_count positive posts > 0 \<and> class_count negative posts > 0 then overall_mixed
         else overall_neutral)"
  using assms by (simp add: analyze_sentiment_def Let_def class_count_def filter_map comp_def)

text \<open>
  Claim C7. For an item with non-negative vote counts the ratio is
  \<open>upvotes / (upvotes + downvotes)\<close>, and the midpoint \<open>1/2\<close> when both counts are zero. The
  item is positive iff its ratio exceeds 0.6, negative iff it is below 0.4, neutral
  otherwise. For a non-empty collection the aggregate is positive (negative) iff more than
  60% of the items are positive (negative); otherwise it is mixed iff at least one positive
  and at least one negative item are present; otherwise it is neutral.
\<close>

theorem analyze_sentiment_classification:
  "(0 \<le> upvotes p \<and> 0 \<le> downvotes p \<longrightarrow>
      ratio (post_sentiment p) =
        (if upvotes p = 0 \<and> downvotes p = 0 then 1 / 2
         else real_of_int (upvotes p) / real_of_int (upvotes p + downvotes p)))
   \<and> (sentiment (post_sentiment p) = positive \<longleftrightarrow> ratio (post_sentiment p) > 0.6)
   \<and> (sentiment (post_sentiment p) = negative \<longleftrightarrow> ratio (post_sentiment p) < 0.4)
   \<and> (sentiment (post_sentiment p) = neutral \<longleftrightarrow>
        0.4 \<le> ratio (post_sentiment p) \<and> ratio (post_sentiment p) \<le> 0.6)
   \<and> (posts \<noteq> [] \<longrightarrow>
        (\<exists>s. analyze_sentiment posts = Inr s \<and> details s = map post_sentiment posts
          \<and> (overall s = overall_positive \<longleftrightarrow>
                real (class_count positive posts) > 0.6 * real (length posts))
          \<and> (overall s = overall_negative \<longleftrightarrow>
                real (class_count negative posts) > 0.6 * real (length posts))
          \<and> (overall s = overall_mixed \<longleftrightarrow>
                \<not> real (class_count positive posts) > 0.6 * real (length posts)
                \<and> \<not> real (class_count negative posts) > 0.6 * real (length posts)
                \<and> class_count positive posts \<ge> 1 \<and> class_count negative posts \<ge> 1)
          \<and> (overall s = overall_neutral \<longleftrightarrow>
                \<not> real (class_count positive posts) > 0.6 * real (length posts)
                \<and> \<not> real (class_count negative posts) > 0.6 * real (length posts)
                \<and> \<not> (class_count positive posts \<ge> 1 \<and> class_count negative posts \<ge> 1))))"
proof -
  have r: "0 \<le> upvotes p \<and> 0 \<le> downvotes p \<longrightarrow>
      ratio (post_sentiment p) =
        (if upvotes p = 0 \<and> downvotes p = 0 then 1 / 2
         else real_of_int (upvotes p) / real_of_int (upvotes p + downvotes p))"
    by (auto simp: post_sentiment_ratio)
  have c1: "sentiment (post_sentiment p) = positive \<longleftrightarrow> ratio (post_sentiment p) > 0.6"
    by (simp add: post_sentiment_class)
  have c2: "sentiment (post_sentiment p) = negative \<longleftrightarrow> ratio (post_sentiment p) < 0.4"
    by (simp add: post_sentiment_class)
  have c3: "sentiment (post_sentiment p) = neutral \<longleftrightarrow>
        0.4 \<le> ratio (post_sentiment p) \<and> ratio (post_sentiment p) \<le> 0.6"
    by (auto simp add: post_sentiment_class)
  have agg: "\<exists>s. analyze_sentiment posts = Inr s \<and> details s = map post_sentiment posts
          \<and> (overall s = overall_positive \<longleftrightarrow>
                real (class_count positive posts) > 0.6 * real (length posts))
          \<and> (overall s = overall_negative \<longleftrightarrow>
                real (class_count negative posts) > 0.6 * real (length posts))
          \<and> (overall s = overall_mixed \<longleftrightarrow>
                \<not> real (class_count positive posts) > 0.6 * real (length posts)
                \<and> \<not> real (class_count negative posts) > 0.6 * real (length posts)
                \<and> class_count positive posts \<ge> 1 \<and> class_count negative posts \<ge> 1)
          \<and> (overall s = overall_neutral \<longleftrightarrow>
                \<not> real (class_count positive posts) > 0.6 * real (length posts)
                \<and> \<not> real (class_count negative posts) > 0.6 * real (length posts)
                \<and> \<not> (class_count positive posts \<ge> 1 \<and> class_count negative posts \<ge> 1))"
    if ne: "posts \<noteq> []"
  proof -
    from analyze_sentiment_overall [OF ne] obtain s where
      s: "analyze_sentiment posts = Inr s" "details s = map post_sentiment posts"
      and o: "overall s =
        (if real (class_count positive posts) > real (length posts) * 0.6 then overall_positive
         else if real (class_count negative posts) > real (length posts) * 0.6 then overall_negative
         else if class_count positive posts > 0 \<and> class_count negative posts > 0 then overall_mixed
         else overall_neutral)" by blast
    have len: "0 < real (length posts)" using ne by simp
    have both: "\<not> (real (class_count positive posts) > real (length posts) * 0.6
        \<and> real (class_count negative posts) > real (length posts) * 0.6)"
    proof
      assume a: "real (class_count positive posts) > real (length posts) * 0.6
        \<and> real (class_count negative posts) > real (length posts) * 0.6"
      have "real (class_count positive posts) + real (class_count negative posts) \<le> real (length posts)"
        using class_count_sum [of posts] by linarith
      with a len show False by linarith
    qed
    show ?thesis
      apply (rule exI [of _ s])
      using s o both by (auto simp: mult.commute split: if_splits)
  qed
  from r c1 c2 c3 agg show ?thesis by blast
qed

text \<open>
  The theorem at the items of the specification's example: 8 up and 2 down votes give the
  ratio 4/5 and the class positive; together with the items 2/8 (negative) and 5/5
  (neutral) the aggregate is mixed.
\<close>

theorem analyze_sentiment_classification_witness:
  "0 \<le> upvotes (sample_post 8 2 0) \<and> 0 \<le> downvotes (sample_post 8 2 0)
   \<and> ratio (post_sentiment (sample_post 8 2 0)) = 4 / 5
   \<and> sentiment (post_sentiment (sample_post 8 2 0)) = positive
   \<and> sentiment (post_sentiment (sample_post 2 8 0)) = negative
   \<and> sentiment (post_sentiment (sample_post 5 5 0)) = neutral
   \<and> [sample_post 8 2 0, sample_post 2 8 0, sample_post 5 5 0] \<noteq> []
   \<and> (\<exists>s. analyze_sentiment [sample_post 8 2 0, sample_post 2 8 0, sample_post 5 5 0] = Inr s
          \<and> overall s = overall_mixed)"
  using analyze_sentiment_classification
          [of "sample_post 8 2 0" "[sample_post 8 2 0, sample_post 2 8 0, sample_post 5 5 0]"]
        analyze_sentiment_classification [of "sample_post 2 8 0" "[]"]
        analyze_sentiment_classification [of "sample_post 5 5 0" "[]"]
  by (auto simp: sample_post_def class_count_def post_sentiment_def Let_def)

subsection \<open>Anomaly flags\<close>

lemma scan_posts_eq:
  "scan_posts u d c ps acc =
     acc @ map (\<lambda>p. \<lparr>unusual_post_id = post_id p, unusual_title = title p,
                      reasons = fst (check_post u d c p), anomaly_score = snd (check_post u d c p)\<rparr>)
             (filter (\<lambda>p. fst (check_post u d c p) \<noteq> []) ps)"
  by (induction ps arbitrary: acc) (auto simp: Let_def split: prod.splits)

lemma check_post_flag: "fst (check_post u d c p) \<noteq> [] \<longleftrightarrow> code_flag_condition u d c p"
  by (auto simp: check_post_def note_if_def Let_def code_flag_condition_def mult.commute)

lemma check_post_score: "snd (check_post u d c p) = severity u d c p"
  by (auto simp: check_post_def note_if_def Let_def severity_def mult.commute)

lemma descending_take_sort:
  "sorted_wrt (\<lambda>a b. f a \<ge> (f b :: int)) (take n (sort_key (\<lambda>u. - f u) xs))"
proof -
  have "sorted (map (\<lambda>u. - f u) (sort_key (\<lambda>u. - f u) xs))" by (rule sorted_sort_key)
  then have "sorted_wrt (\<lambda>a b. f a \<ge> f b) (sort_key (\<lambda>u. - f u) xs)"
    by (simp add: sorted_map)
  then show ?thesis by (rule sorted_wrt_take)
qed

text \<open>
  Claim C8, as amended. Against the batch means, a post is flagged iff its upvotes exceed
  3 times the mean, or its downvotes exceed 3 times the mean and 5, or its downvote ratio
  exceeds 50% with more than 10 total votes, or its comments exceed 4 times the mean
  (\<open>code_flag_condition\<close>); the flagged posts keep the batch order. The score of a flagged
  post adds 2, 2, 1 and 1 for the matched conditions (\<open>severity\<close>). Sorting keeps exactly
  the flagged posts and orders them by descending score; the tool returns the first 10 of
  them, again in descending order of score.
\<close>

theorem analyze_anomaly_flags:
  "flagged_posts posts =
     map (\<lambda>p. \<lparr>unusual_post_id = post_id p, unusual_title = title p,
               reasons = fst (check_post (mean_of upvotes posts) (mean_of downvotes posts)
                                (mean_of comment_count posts) p),
               anomaly_score = severity (mean_of upvotes posts) (mean_of downvotes posts)
                                (mean_of comment_count posts) p\<rparr>)
         (filter (code_flag_condition (mean_of upvotes posts) (mean_of downvotes posts)
                    (mean_of comment_count posts)) posts)
   \<and> mset (sorted_flagged posts) = mset (flagged_posts posts)
   \<and> sorted_wrt (\<lambda>a b. anomaly_score a \<ge> anomaly_score b) (sorted_flagged posts)
   \<and> analyze_anomaly posts = take 10 (sorted_flagged posts)
   \<and> sorted_wrt (\<lambda>a b. anomaly_score a \<ge> anomaly_score b) (analyze_anomaly posts)"
proof -
  have a: "flagged_posts posts =
     map (\<lambda>p. \<lparr>unusual_post_id = post_id p, unusual_title = title p,
               reasons = fst (check_post (mean_of upvotes posts) (mean_of downvotes posts)
                                (mean_of comment_count posts) p),
               anomaly_score = severity (mean_of upvotes posts) (mean_of downvotes posts)
                                (mean_of comment_count posts) p\<rparr>)
         (filter (code_flag_condition (mean_of upvotes posts) (mean_of downvotes posts)
                    (mean_of comment_count posts)) posts)"
    by (simp add: flagged_posts_def scan_posts_eq check_post_flag check_post_score)
  have b: "mset (sorted_flagged posts) = mset (flagged_posts posts)"
    by (simp add: sorted_flagged_def)
  have c: "sorted_wrt (\<lambda>a b. anomaly_score a \<ge> anomaly_score b) (sorted_flagged posts)"
    unfolding sorted_flagged_def
    using descending_take_sort [of anomaly_score "length (flagged_posts posts)" "flagged_posts posts"]
    by simp
  have d: "analyze_anomaly posts = take 10 (sorted_flagged posts)"
    by (simp add: analyze_anomaly_def)
  have e: "sorted_wrt (\<lambda>a b. anomaly_score a \<ge> anomaly_score b) (analyze_anomaly posts)"
    unfolding analyze_anomaly_def sorted_flagged_def by (rule descending_take_sort)
  from a b c d e show ?thesis by blast
qed

text \<open>
  The claim as worded fails on a batch of one post with 4 upvotes, 6 downvotes and no
  comments: its downvote ratio is 60% with 10 total votes, so the worded condition
  (\<open>spec_flag_condition\<close>, "at least 10 total votes") holds, while the source tests
  \<^verbatim>\<open>total > 10\<close> and flags nothing.
\<close>

theorem analyze_anomaly_ten_votes_counterexample:
  "spec_flag_condition (mean_of upvotes [sample_post 4 6 0]) (mean_of downvotes [sample_post 4 6 0])
      (mean_of comment_count [sample_post 4 6 0]) (sample_post 4 6 0)
   \<and> flagged_posts [sample_post 4 6 0] = []
   \<and> analyze_anomaly [sample_post 4 6 0] = []"
  by (simp add: spec_flag_condition_def mean_of_def flagged_posts_def analyze_anomaly_def
        sorted_flagged_def check_post_def note_if_def Let_def sample_post_def)

subsection \<open>Transport layer: retry ceiling\<close>












subsection \<open>Capability dispatch and fallback search\<close>

lemma includes_iff: "str_includes hay needle \<longleftrightarrow> (\<exists>pre post. hay = pre @ needle @ post)"
proof (induction hay)
  case Nil
  then show ?case by auto
next
  case (Cons c cs)
  show ?case
  proof
    assume "str_includes (c # cs) needle"
    then consider "prefix needle (c # cs)" | "str_includes cs needle" by auto
    then show "\<exists>pre post. c # cs = pre @ needle @ post"
    proof cases
      case 1
      then obtain post where "c # cs = needle @ post" by (auto simp: prefix_def)
      then have "c # cs = [] @ needle @ post" by simp
      then show ?thesis by blast
    next
      case 2
      with Cons obtain pre post where "cs = pre @ needle @ post" by blast
      then have "c # cs = (c # pre) @ needle @ post" by simp
      then show ?thesis by blast
    qed
  next
    assume "\<exists>pre post. c # cs = pre @ needle @ post"
    then obtain pre post where e: "c # cs = pre @ needle @ post" by blast
    show "str_includes (c # cs) needle"
    proof (cases pre)
      case Nil
      with e have "prefix needle (c # cs)" by (simp add: prefix_def)
      then show ?thesis by simp
    next
      case (Cons a pre')
      with e have "cs = pre' @ needle @ post" by simp
      with Cons.IH show ?thesis by auto
    qed
  qed
qed










lemma str_includes_Nil: "str_includes h []"
  by (cases h) auto

lemma filter_query:
  "(if q \<noteq> [] then filter (\<lambda>p. str_includes (haystack p) q) posts else posts)
     = filter (\<lambda>p. str_includes (haystack p) q) posts"
  by (simp add: str_includes_Nil)

lemma fallback_item_tagged: "get_field (fallback_item p) ''fallback'' = JBool True"
  by (simp add: fallback_item_def get_field_def)











subsection \<open>Orchestration loop\<close>

lemma paired_append: "paired xs \<Longrightarrow> paired ys \<Longrightarrow> paired (xs @ ys)"
  by (induction xs rule: paired.induct) auto

lemma paired_texts: "list_all is_text ts \<Longrightarrow> paired ts"
  by (induction ts rule: paired.induct) (auto simp: is_text_def)

lemma paired_map_Text: "paired (map Text ts)"
  by (induction ts) auto

lemma paired_invocation_events: "paired (invocation_events invs results)"
proof (induction invs arbitrary: results)
  case Nil
  then show ?case by (simp add: invocation_events_def)
next
  case (Cons a invs)
  then show ?case
    by (cases results; cases a) (auto simp: invocation_events_def)
qed

lemma length_dispatch_all: "length (fst (dispatch_all tools invs st)) = length invs"
proof (induction invs arbitrary: st)
  case Nil
  then show ?case by simp
next
  case (Cons a invs)
  obtain nm inp where a: "a = (nm, inp)" by (cases a)
  obtain result st' where e: "executeTool tools nm inp st = (result, st')"
    by (cases "executeTool tools nm inp st")
  show ?case using Cons.IH [of st'] by (simp add: a e case_prod_beta)
qed

lemma well_formed_terminal: "is_terminal t \<Longrightarrow> well_formed_stream [t]"
  by (simp add: well_formed_stream_def)

lemma well_formed_prepend: "paired xs \<Longrightarrow> well_formed_stream rest \<Longrightarrow> well_formed_stream (xs @ rest)"
  by (auto simp: well_formed_stream_def butlast_append paired_append)

lemma stream_tool_uses_closed:
  "stream_tool_uses tools uses (evs, tcs, trs, st) =
     (evs @ invocation_events (map (\<lambda>(tid, nm, inp). (nm, inp)) uses)
              (fst (dispatch_all tools (map (\<lambda>(tid, nm, inp). (nm, inp)) uses) st)),
      tcs @ map (\<lambda>((tid, nm, inp), result). \<lparr>call_name = nm, call_input = inp, call_output = result\<rparr>)
              (zip uses (fst (dispatch_all tools (map (\<lambda>(tid, nm, inp). (nm, inp)) uses) st))),
      trs @ zip (map fst uses) (fst (dispatch_all tools (map (\<lambda>(tid, nm, inp). (nm, inp)) uses) st)),
      snd (dispatch_all tools (map (\<lambda>(tid, nm, inp). (nm, inp)) uses) st))"
proof (induction uses arbitrary: evs tcs trs st)
  case Nil
  then show ?case by (simp add: invocation_events_def)
next
  case (Cons u uses)
  obtain tid nm inp where u: "u = (tid, nm, inp)" by (cases u)
  obtain result st' where e: "executeTool tools nm inp st = (result, st')"
    by (cases "executeTool tools nm inp st")
  show ?case
    using Cons.IH [of "evs @ [ToolStart nm, ToolEnd nm result]"
        "tcs @ [\<lparr>call_name = nm, call_input = inp, call_output = result\<rparr>]" "trs @ [(tid, result)]" st']
    by (simp add: u e invocation_events_def split: prod.splits)
qed

lemma stream_pending_calls_closed:
  "stream_pending_calls tools P pcs (evs, tcs, hist, st) =
     (evs @ invocation_events (map (\<lambda>tc. (pending_name tc, parse_arguments P (pending_arguments tc))) pcs)
              (fst (dispatch_all tools (map (\<lambda>tc. (pending_name tc, parse_arguments P (pending_arguments tc))) pcs) st)),
      tcs @ map (\<lambda>(tc, result). \<lparr>call_name = pending_name tc,
                                   call_input = parse_arguments P (pending_arguments tc),
                                   call_output = result\<rparr>)
              (zip pcs (fst (dispatch_all tools (map (\<lambda>tc. (pending_name tc, parse_arguments P (pending_arguments tc))) pcs) st))),
      hist @ map (\<lambda>(tc, result). ToolMessage (pending_id tc) result)
              (zip pcs (fst (dispatch_all tools (map (\<lambda>tc. (pending_name tc, parse_arguments P (pending_arguments tc))) pcs) st))),
      snd (dispatch_all tools (map (\<lambda>tc. (pending_name tc, parse_arguments P (pending_arguments tc))) pcs) st))"
proof (induction pcs arbitrary: evs tcs hist st)
  case Nil
  then show ?case by (simp add: invocation_events_def)
next
  case (Cons tc pcs)
  obtain result st' where e: "executeTool tools (pending_name tc) (parse_arguments P (pending_arguments tc)) st = (result, st')"
    by (cases "executeTool tools (pending_name tc) (parse_arguments P (pending_arguments tc)) st")
  show ?case
    using Cons.IH [of "evs @ [ToolStart (pending_name tc), ToolEnd (pending_name tc) result]"
        "tcs @ [\<lparr>call_name = pending_name tc, call_input = parse_arguments P (pending_arguments tc), call_output = result\<rparr>]"
        "hist @ [ToolMessage (pending_id tc) result]" st']
    by (simp add: e invocation_events_def Let_def split: prod.splits)
qed

lemma read_chunk_texts:
  "list_all is_text (fst acc) \<Longrightarrow> list_all is_text (fst (foldl read_chunk acc cs))"
proof (induction cs arbitrary: acc)
  case Nil
  then show ?case by simp
next
  case (Cons c cs)
  have "list_all is_text (fst (read_chunk acc c))"
    using Cons.prems
    by (cases acc) (auto simp: read_chunk_def Let_def split: option.splits, simp add: is_text_def)
  from Cons.IH [OF this] show ?case by simp
qed

lemma stream_texts_paired: "paired (stream_texts cs)"
  unfolding stream_texts_def by (rule paired_texts, rule read_chunk_texts) simp

lemma claude_stream_round:
  assumes "turn < maxTurns" "api h (world s) = (resp, w)" "thrown resp = None"
  shows "events (chatStreamWithClaude_loop tools api maxTurns turn h tcs s) =
     map Text (deltas resp)
     @ invocation_events (requested_uses (blocks resp))
         (fst (dispatch_all tools (requested_uses (blocks resp)) (s\<lparr>world := w\<rparr>)))
     @ (if tool_uses (blocks resp) = [] then [Done (some_if_any tcs)]
        else if stop_reason resp = ''end_turn''
        then [Done (Some (tcs @ map (\<lambda>((tid, nm, inp), result).
                                \<lparr>call_name = nm, call_input = inp, call_output = result\<rparr>)
                           (zip (tool_uses (blocks resp))
                              (fst (dispatch_all tools (requested_uses (blocks resp)) (s\<lparr>world := w\<rparr>))))))]
        else events (chatStreamWithClaude_loop tools api maxTurns (turn + 1)
               (h @ [AssistantBlocks (blocks resp),
                     UserToolResults (zip (map fst (tool_uses (blocks resp)))
                        (fst (dispatch_all tools (requested_uses (blocks resp)) (s\<lparr>world := w\<rparr>))))])
               (tcs @ map (\<lambda>((tid, nm, inp), result).
                                \<lparr>call_name = nm, call_input = inp, call_output = result\<rparr>)
                           (zip (tool_uses (blocks resp))
                              (fst (dispatch_all tools (requested_uses (blocks resp)) (s\<lparr>world := w\<rparr>)))))
               (snd (dispatch_all tools (requested_uses (blocks resp)) (s\<lparr>world := w\<rparr>)))))"
  using assms
  by (subst chatStreamWithClaude_loop.simps)
     (simp add: Let_def stream_tool_uses_closed requested_uses_def invocation_events_def)

lemma claude_stream_thrown:
  assumes "turn < maxTurns" "api h (world s) = (resp, w)" "thrown resp = Some e"
  shows "events (chatStreamWithClaude_loop tools api maxTurns turn h tcs s) = map Text (deltas resp) @ [Error e]"
  using assms by (subst chatStreamWithClaude_loop.simps) (simp add: Let_def)

lemma claude_stream_limit:
  assumes "\<not> turn < maxTurns"
  shows "chatStreamWithClaude_loop tools api maxTurns turn h tcs s =
     \<lparr>events = [Done (Some tcs)], history_after = h, state_after = s, rounds = 0\<rparr>"
  using assms by (subst chatStreamWithClaude_loop.simps) simp

lemma claude_stream_well_formed:
  "well_formed_stream (events (chatStreamWithClaude_loop tools api maxTurns turn h tcs s))"
proof (induction "nat (maxTurns - turn)" arbitrary: turn h tcs s)
  case 0
  then have "\<not> turn < maxTurns" by simp
  then show ?case by (simp add: claude_stream_limit well_formed_terminal is_terminal_def)
next
  case (Suc n)
  then have lt: "turn < maxTurns" by linarith
  obtain resp w where a: "api h (world s) = (resp, w)" by (cases "api h (world s)")
  show ?case
  proof (cases "thrown resp")
    case (Some e)
    show ?thesis
      unfolding claude_stream_thrown [where api = api and h = h and s = s, OF lt a Some]
      by (intro well_formed_prepend paired_map_Text well_formed_terminal) (simp add: is_terminal_def)
  next
    case None
    have n: "n = nat (maxTurns - (turn + 1))" using Suc.hyps(2) by linarith
    show ?thesis
      unfolding claude_stream_round [where api = api and h = h and s = s, OF lt a None]
      by (intro well_formed_prepend paired_map_Text paired_invocation_events)
         (auto simp: well_formed_terminal is_terminal_def Suc.hyps(1) [OF n])
  qed
qed

lemma openai_stream_round:
  assumes "turn < maxTurns" "api h (world s) = (resp, w)" "stream_thrown resp = None"
  shows "events (chatStreamWithOpenAI_loop tools P api maxTurns turn h tcs s) =
     stream_texts (chunks resp)
     @ invocation_events (requested_calls P (chunks resp))
         (fst (dispatch_all tools (requested_calls P (chunks resp)) (s\<lparr>world := w\<rparr>)))
     @ (if pending_calls (chunks resp) = [] then [Done (some_if_any tcs)]
        else events (chatStreamWithOpenAI_loop tools P api maxTurns (turn + 1)
               ((h @ [AssistantToolCalls (if full_text (chunks resp) = [] then None
                                          else Some (full_text (chunks resp)))
                        (pending_calls (chunks resp))])
                @ map (\<lambda>(tc, result). ToolMessage (pending_id tc) result)
                    (zip (pending_calls (chunks resp))
                       (fst (dispatch_all tools (requested_calls P (chunks resp)) (s\<lparr>world := w\<rparr>)))))
               (tcs @ map (\<lambda>(tc, result). \<lparr>call_name = pending_name tc,
                                   call_input = parse_arguments P (pending_arguments tc),
                                   call_output = result\<rparr>)
                    (zip (pending_calls (chunks resp))
                       (fst (dispatch_all tools (requested_calls P (chunks resp)) (s\<lparr>world := w\<rparr>)))))
               (snd (dispatch_all tools (requested_calls P (chunks resp)) (s\<lparr>world := w\<rparr>)))))"
proof -
  obtain texts fullText pend where f: "foldl read_chunk ([], [], []) (chunks resp) = (texts, fullText, pend)"
    by (cases "foldl read_chunk ([], [], []) (chunks resp)") auto
  show ?thesis
    using assms f
    by (subst chatStreamWithOpenAI_loop.simps)
       (simp add: Let_def stream_pending_calls_closed requested_calls_def pending_calls_def
          stream_texts_def full_text_def invocation_events_def)
qed

lemma openai_stream_thrown:
  assumes "turn < maxTurns" "api h (world s) = (resp, w)" "stream_thrown resp = Some e"
  shows "events (chatStreamWithOpenAI_loop tools P api maxTurns turn h tcs s) =
           stream_texts (chunks resp) @ [Error e]"
proof -
  obtain texts fullText pend where f: "foldl read_chunk ([], [], []) (chunks resp) = (texts, fullText, pend)"
    by (cases "foldl read_chunk ([], [], []) (chunks resp)") auto
  show ?thesis
    using assms f
    by (subst chatStreamWithOpenAI_loop.simps) (simp add: Let_def stream_texts_def)
qed

lemma openai_stream_limit:
  assumes "\<not> turn < maxTurns"
  shows "chatStreamWithOpenAI_loop tools P api maxTurns turn h tcs s =
     \<lparr>events = [Done (Some tcs)], history_after = h, state_after = s, rounds = 0\<rparr>"
  using assms by (subst chatStreamWithOpenAI_loop.simps) simp

lemma openai_stream_well_formed:
  "well_formed_stream (events (chatStreamWithOpenAI_loop tools P api maxTurns turn h tcs s))"
proof (induction "nat (maxTurns - turn)" arbitrary: turn h tcs s)
  case 0
  then have "\<not> turn < maxTurns" by simp
  then show ?case by (simp add: openai_stream_limit well_formed_terminal is_terminal_def)
next
  case (Suc n)
  then have lt: "turn < maxTurns" by linarith
  obtain resp w where a: "api h (world s) = (resp, w)" by (cases "api h (world s)")
  show ?case
  proof (cases "stream_thrown resp")
    case (Some e)
    show ?thesis
      unfolding openai_stream_thrown [where api = api and h = h and s = s, OF lt a Some]
      by (intro well_formed_prepend stream_texts_paired well_formed_terminal) (simp add: is_terminal_def)
  next
    case None
    have n: "n = nat (maxTurns - (turn + 1))" using Suc.hyps(2) by linarith
    show ?thesis
      unfolding openai_stream_round [where api = api and h = h and s = s, OF lt a None]
      by (intro well_formed_prepend stream_texts_paired paired_invocation_events)
         (auto simp: well_formed_terminal is_terminal_def Suc.hyps(1) [OF n])
  qed
qed

lemma chatStream_well_formed:
  "well_formed_stream (chatStream tools JSON_parse provider anthropicClient openaiClient systemPrompt maxTurns
       conversationHistory openaiHistory userMessage st)"
proof (cases "provider = ''claude''")
  case True
  then show ?thesis
    by (cases anthropicClient)
       (simp_all add: chatStream_def chatStreamWithClaude_def claude_stream_well_formed
          well_formed_terminal is_terminal_def)
next
  case False
  then show ?thesis
    by (cases openaiClient)
       (simp_all add: chatStream_def chatStreamWithOpenAI_def openai_stream_well_formed
          well_formed_terminal is_terminal_def)
qed



lemma recorded_calls_uses:
  "map (\<lambda>((tid, nm, inp), result). \<lparr>call_name = nm, call_input = inp, call_output = result\<rparr>) (zip uses results)
     = recorded_calls (map (\<lambda>(tid, nm, inp). (nm, inp)) uses) results"
  by (induction uses arbitrary: results)
     (auto simp: recorded_calls_def split: prod.splits list.splits, case_tac results, auto)

lemma claude_stream_continue:
  assumes "turn < maxTurns" "api h (world s) = (resp, w)" "thrown resp = None"
    "tool_uses (blocks resp) \<noteq> []" "stop_reason resp \<noteq> ''end_turn''"
  shows "chatStreamWithClaude_loop tools api maxTurns turn h tcs s =
      (chatStreamWithClaude_loop tools api maxTurns (turn + 1)
         (claude_round_history h resp (claude_round_results tools resp (s\<lparr>world := w\<rparr>)))
         (tcs @ recorded_calls (requested_uses (blocks resp)) (claude_round_results tools resp (s\<lparr>world := w\<rparr>)))
         (claude_round_state tools resp (s\<lparr>world := w\<rparr>)))
      \<lparr>events := map Text (deltas resp)
          @ invocation_events (requested_uses (blocks resp)) (claude_round_results tools resp (s\<lparr>world := w\<rparr>))
          @ events (chatStreamWithClaude_loop tools api maxTurns (turn + 1)
               (claude_round_history h resp (claude_round_results tools resp (s\<lparr>world := w\<rparr>)))
               (tcs @ recorded_calls (requested_uses (blocks resp)) (claude_round_results tools resp (s\<lparr>world := w\<rparr>)))
               (claude_round_state tools resp (s\<lparr>world := w\<rparr>))),
       rounds := Suc (rounds (chatStreamWithClaude_loop tools api maxTurns (turn + 1)
               (claude_round_history h resp (claude_round_results tools resp (s\<lparr>world := w\<rparr>)))
               (tcs @ recorded_calls (requested_uses (blocks resp)) (claude_round_results tools resp (s\<lparr>world := w\<rparr>)))
               (claude_round_state tools resp (s\<lparr>world := w\<rparr>))))\<rparr>"
  using assms
  by (subst chatStreamWithClaude_loop.simps)
     (simp add: Let_def stream_tool_uses_closed recorded_calls_uses requested_uses_def
        claude_round_results_def claude_round_state_def claude_round_history_def)

lemma claude_stream_turn_limit:
  assumes "always_requests_tools api" "never_ends_turn api"
  shows "rounds (chatStreamWithClaude_loop tools api maxTurns turn h tcs s) = nat (maxTurns - turn)
     \<and> events (chatStreamWithClaude_loop tools api maxTurns turn h tcs s) \<noteq> []
     \<and> (\<exists>tcs'. last (events (chatStreamWithClaude_loop tools api maxTurns turn h tcs s)) = Done (Some tcs'))"
proof (induction "nat (maxTurns - turn)" arbitrary: turn h tcs s)
  case 0
  then have "\<not> turn < maxTurns" by simp
  then show ?case using 0 by (simp add: claude_stream_limit)
next
  case (Suc n)
  then have lt: "turn < maxTurns" by linarith
  obtain resp w where a: "api h (world s) = (resp, w)" by (cases "api h (world s)")
  have r: "thrown resp = None" "tool_uses (blocks resp) \<noteq> []"
    using assms(1) a unfolding always_requests_tools_def by (metis fst_conv)+
  have e: "stop_reason resp \<noteq> ''end_turn''"
    using assms(2) a unfolding never_ends_turn_def by (metis fst_conv)
  have n: "n = nat (maxTurns - (turn + 1))" using Suc.hyps(2) by linarith
  show ?case
    using Suc.hyps(1) [OF n] Suc.hyps(2) n
    by (subst (1 2 3) claude_stream_continue [where api = api and h = h and s = s, OF lt a r e]) auto
qed

lemma claude_chat_limit:
  assumes "\<not> turn < maxTurns"
  shows "chatWithClaude_loop tools api provider maxTurns turn h tcs s =
     \<lparr>response = \<lparr>response_text = turn_limit_notice, response_toolCalls = Some tcs, needsContinue = True\<rparr>,
      chat_history_after = h, chat_state_after = s, chat_rounds = 0\<rparr>"
  using assms by (subst chatWithClaude_loop.simps) simp

lemma call_tool_uses_closed:
  "call_tool_uses tools uses (tcs, trs, st) =
     (tcs @ recorded_calls (map (\<lambda>(tid, nm, inp). (nm, inp)) uses)
              (fst (dispatch_all tools (map (\<lambda>(tid, nm, inp). (nm, inp)) uses) st)),
      trs @ zip (map fst uses) (fst (dispatch_all tools (map (\<lambda>(tid, nm, inp). (nm, inp)) uses) st)),
      snd (dispatch_all tools (map (\<lambda>(tid, nm, inp). (nm, inp)) uses) st))"
proof (induction uses arbitrary: tcs trs st)
  case Nil
  then show ?case by (simp add: recorded_calls_def)
next
  case (Cons u uses)
  obtain tid nm inp where u: "u = (tid, nm, inp)" by (cases u)
  obtain result st' where e: "executeTool tools nm inp st = (result, st')"
    by (cases "executeTool tools nm inp st")
  show ?case
    using Cons.IH [of "tcs @ [\<lparr>call_name = nm, call_input = inp, call_output = result\<rparr>]" "trs @ [(tid, result)]" st']
    by (simp add: u e recorded_calls_def split: prod.splits)
qed

lemma claude_chat_continue:
  assumes "turn < maxTurns" "api h (world s) = (resp, w)" "thrown resp = None"
    "tool_uses (blocks resp) \<noteq> []" "stop_reason resp \<noteq> ''end_turn''"
  shows "chatWithClaude_loop tools api provider maxTurns turn h tcs s =
      (chatWithClaude_loop tools api provider maxTurns (turn + 1)
         (claude_round_history h resp (claude_round_results tools resp (s\<lparr>world := w\<rparr>)))
         (tcs @ recorded_calls (requested_uses (blocks resp)) (claude_round_results tools resp (s\<lparr>world := w\<rparr>)))
         (claude_round_state tools resp (s\<lparr>world := w\<rparr>)))
      \<lparr>chat_rounds := Suc (chat_rounds (chatWithClaude_loop tools api provider maxTurns (turn + 1)
               (claude_round_history h resp (claude_round_results tools resp (s\<lparr>world := w\<rparr>)))
               (tcs @ recorded_calls (requested_uses (blocks resp)) (claude_round_results tools resp (s\<lparr>world := w\<rparr>)))
               (claude_round_state tools resp (s\<lparr>world := w\<rparr>))))\<rparr>"
  using assms
  by (subst chatWithClaude_loop.simps)
     (simp add: Let_def call_tool_uses_closed requested_uses_def
        claude_round_results_def claude_round_state_def claude_round_history_def)

lemma claude_chat_turn_limit:
  assumes "always_requests_tools api" "never_ends_turn api"
  shows "chat_rounds (chatWithClaude_loop tools api provider maxTurns turn h tcs s) = nat (maxTurns - turn)
     \<and> response_text (response (chatWithClaude_loop tools api provider maxTurns turn h tcs s)) = turn_limit_notice
     \<and> needsContinue (response (chatWithClaude_loop tools api provider maxTurns turn h tcs s))"
proof (induction "nat (maxTurns - turn)" arbitrary: turn h tcs s)
  case 0
  then have "\<not> turn < maxTurns" by simp
  then show ?case using 0 by (simp add: claude_chat_limit)
next
  case (Suc n)
  then have lt: "turn < maxTurns" by linarith
  obtain resp w where a: "api h (world s) = (resp, w)" by (cases "api h (world s)")
  have r: "thrown resp = None" "tool_uses (blocks resp) \<noteq> []"
    using assms(1) a unfolding always_requests_tools_def by (metis fst_conv)+
  have e: "stop_reason resp \<noteq> ''end_turn''"
    using assms(2) a unfolding never_ends_turn_def by (metis fst_conv)
  have n: "n = nat (maxTurns - (turn + 1))" using Suc.hyps(2) by linarith
  show ?case
    using Suc.hyps(1) [OF n] Suc.hyps(2) n
    by (subst (1 2 3) claude_chat_continue [where api = api and h = h and s = s, OF lt a r e]) auto
qed

lemma recorded_calls_pending:
  "map (\<lambda>(tc, result). \<lparr>call_name = pending_name tc,
                           call_input = parse_arguments P (pending_arguments tc),
                           call_output = result\<rparr>) (zip pcs results)
     = recorded_calls (requested_of P pcs) results"
  by (induction pcs arbitrary: results)
     (auto simp: recorded_calls_def requested_of_def split: prod.splits list.splits, case_tac results, auto)

lemma openai_stream_continue:
  assumes "turn < maxTurns" "api h (world s) = (resp, w)" "stream_thrown resp = None"
    "pending_calls (chunks resp) \<noteq> []"
  shows "chatStreamWithOpenAI_loop tools P api maxTurns turn h tcs s =
      (chatStreamWithOpenAI_loop tools P api maxTurns (turn + 1)
         ((h @ [AssistantToolCalls (if full_text (chunks resp) = [] then None else Some (full_text (chunks resp)))
                  (pending_calls (chunks resp))])
          @ tool_messages (pending_calls (chunks resp))
              (fst (dispatch_all tools (requested_of P (pending_calls (chunks resp))) (s\<lparr>world := w\<rparr>))))
         (tcs @ recorded_calls (requested_of P (pending_calls (chunks resp)))
                  (fst (dispatch_all tools (requested_of P (pending_calls (chunks resp))) (s\<lparr>world := w\<rparr>))))
         (snd (dispatch_all tools (requested_of P (pending_calls (chunks resp))) (s\<lparr>world := w\<rparr>))))
      \<lparr>events := stream_texts (chunks resp)
          @ invocation_events (requested_of P (pending_calls (chunks resp)))
              (fst (dispatch_all tools (requested_of P (pending_calls (chunks resp))) (s\<lparr>world := w\<rparr>)))
          @ events (chatStreamWithOpenAI_loop tools P api maxTurns (turn + 1)
             ((h @ [AssistantToolCalls (if full_text (chunks resp) = [] then None else Some (full_text (chunks resp)))
                      (pending_calls (chunks resp))])
              @ tool_messages (pending_calls (chunks resp))
                  (fst (dispatch_all tools (requested_of P (pending_calls (chunks resp))) (s\<lparr>world := w\<rparr>))))
             (tcs @ recorded_calls (requested_of P (pending_calls (chunks resp)))
                      (fst (dispatch_all tools (requested_of P (pending_calls (chunks resp))) (s\<lparr>world := w\<rparr>))))
             (snd (dispatch_all tools (requested_of P (pending_calls (chunks resp))) (s\<lparr>world := w\<rparr>)))),
       rounds := Suc (rounds (chatStreamWithOpenAI_loop tools P api maxTurns (turn + 1)
             ((h @ [AssistantToolCalls (if full_text (chunks resp) = [] then None else Some (full_text (chunks resp)))
                      (pending_calls (chunks resp))])
              @ tool_messages (pending_calls (chunks resp))
                  (fst (dispatch_all tools (requested_of P (pending_calls (chunks resp))) (s\<lparr>world := w\<rparr>))))
             (tcs @ recorded_calls (requested_of P (pending_calls (chunks resp)))
                      (fst (dispatch_all tools (requested_of P (pending_calls (chunks resp))) (s\<lparr>world := w\<rparr>))))
             (snd (dispatch_all tools (requested_of P (pending_calls (chunks resp))) (s\<lparr>world := w\<rparr>)))))\<rparr>"
proof -
  obtain texts fullText pend where f: "foldl read_chunk ([], [], []) (chunks resp) = (texts, fullText, pend)"
    by (cases "foldl read_chunk ([], [], []) (chunks resp)") auto
  show ?thesis
    using assms f
    by (subst chatStreamWithOpenAI_loop.simps)
       (simp add: Let_def stream_pending_calls_closed recorded_calls_pending pending_calls_def
          stream_texts_def full_text_def tool_messages_def requested_of_def [symmetric])
qed

lemma openai_stream_turn_limit:
  assumes "always_streams_tool_calls api"
  shows "rounds (chatStreamWithOpenAI_loop tools P api maxTurns turn h tcs s) = nat (maxTurns - turn)
     \<and> events (chatStreamWithOpenAI_loop tools P api maxTurns turn h tcs s) \<noteq> []
     \<and> (\<exists>tcs'. last (events (chatStreamWithOpenAI_loop tools P api maxTurns turn h tcs s)) = Done (Some tcs'))"
proof (induction "nat (maxTurns - turn)" arbitrary: turn h tcs s)
  case 0
  then have "\<not> turn < maxTurns" by simp
  then show ?case using 0 by (simp add: openai_stream_limit)
next
  case (Suc n)
  then have lt: "turn < maxTurns" by linarith
  obtain resp w where a: "api h (world s) = (resp, w)" by (cases "api h (world s)")
  have r: "stream_thrown resp = None" "pending_calls (chunks resp) \<noteq> []"
    using assms(1) a unfolding always_streams_tool_calls_def by (metis fst_conv)+
  have n: "n = nat (maxTurns - (turn + 1))" using Suc.hyps(2) by linarith
  show ?case
    using Suc.hyps(1) [OF n] Suc.hyps(2) n
    by (subst (1 2 3) openai_stream_continue [where api = api and h = h and s = s, OF lt a r]) auto
qed

lemma openai_chat_limit:
  assumes "\<not> turn < maxTurns"
  shows "chatWithOpenAI_loop tools P api provider maxTurns turn h tcs s =
     \<lparr>response = \<lparr>response_text = turn_limit_notice, response_toolCalls = Some tcs, needsContinue = True\<rparr>,
      chat_history_after = h, chat_state_after = s, chat_rounds = 0\<rparr>"
  using assms by (subst chatWithOpenAI_loop.simps) simp

lemma call_pending_calls_closed:
  "call_pending_calls tools P pcs (tcs, hist, st) =
     (tcs @ recorded_calls (requested_of P pcs) (fst (dispatch_all tools (requested_of P pcs) st)),
      hist @ tool_messages pcs (fst (dispatch_all tools (requested_of P pcs) st)),
      snd (dispatch_all tools (requested_of P pcs) st))"
proof (induction pcs arbitrary: tcs hist st)
  case Nil
  then show ?case by (simp add: recorded_calls_def requested_of_def tool_messages_def)
next
  case (Cons tc pcs)
  obtain result st' where e: "executeTool tools (pending_name tc) (parse_arguments P (pending_arguments tc)) st = (result, st')"
    by (cases "executeTool tools (pending_name tc) (parse_arguments P (pending_arguments tc)) st")
  show ?case
    using Cons.IH [of "tcs @ [\<lparr>call_name = pending_name tc, call_input = parse_arguments P (pending_arguments tc), call_output = result\<rparr>]"
        "hist @ [ToolMessage (pending_id tc) result]" st']
    by (simp add: e recorded_calls_def requested_of_def tool_messages_def Let_def split: prod.splits)
qed

lemma openai_chat_continue:
  assumes "turn < maxTurns" "api h (world s) = (Inr message, w)" "reply_tool_calls message = Some pcs"
    "pcs \<noteq> []"
  shows "chatWithOpenAI_loop tools P api provider maxTurns turn h tcs s =
      (chatWithOpenAI_loop tools P api provider maxTurns (turn + 1)
         ((h @ [AssistantReply message])
            @ tool_messages pcs (fst (dispatch_all tools (requested_of P pcs) (s\<lparr>world := w\<rparr>))))
         (tcs @ recorded_calls (requested_of P pcs) (fst (dispatch_all tools (requested_of P pcs) (s\<lparr>world := w\<rparr>))))
         (snd (dispatch_all tools (requested_of P pcs) (s\<lparr>world := w\<rparr>))))
      \<lparr>chat_rounds := Suc (chat_rounds (chatWithOpenAI_loop tools P api provider maxTurns (turn + 1)
         ((h @ [AssistantReply message])
            @ tool_messages pcs (fst (dispatch_all tools (requested_of P pcs) (s\<lparr>world := w\<rparr>))))
         (tcs @ recorded_calls (requested_of P pcs) (fst (dispatch_all tools (requested_of P pcs) (s\<lparr>world := w\<rparr>))))
         (snd (dispatch_all tools (requested_of P pcs) (s\<lparr>world := w\<rparr>)))))\<rparr>"
  using assms
  by (subst chatWithOpenAI_loop.simps) (simp add: Let_def call_pending_calls_closed)

lemma openai_chat_turn_limit:
  assumes "always_replies_tool_calls api"
  shows "chat_rounds (chatWithOpenAI_loop tools P api provider maxTurns turn h tcs s) = nat (maxTurns - turn)
     \<and> response_text (response (chatWithOpenAI_loop tools P api provider maxTurns turn h tcs s)) = turn_limit_notice
     \<and> needsContinue (response (chatWithOpenAI_loop tools P api provider maxTurns turn h tcs s))"
proof (induction "nat (maxTurns - turn)" arbitrary: turn h tcs s)
  case 0
  then have "\<not> turn < maxTurns" by simp
  then show ?case using 0 by (simp add: openai_chat_limit)
next
  case (Suc n)
  then have lt: "turn < maxTurns" by linarith
  obtain out w where a: "api h (world s) = (out, w)" by (cases "api h (world s)")
  obtain message pcs where r: "out = Inr message" "reply_tool_calls message = Some pcs" "pcs \<noteq> []"
    using assms(1) a unfolding always_replies_tool_calls_def by (metis fst_conv)
  have n: "n = nat (maxTurns - (turn + 1))" using Suc.hyps(2) by linarith
  show ?case
    using Suc.hyps(1) [OF n] Suc.hyps(2) n
    by (subst (1 2 3) openai_chat_continue [where api = api and h = h and s = s, OF lt a [unfolded r(1)] r(2,3)]) auto
qed

text \<open>
  Claim C3, as amended. If on every round the model's response arrives and requests at
  least one capability invocation and, for the Claude protocol, never carries the stop
  reason \<^verbatim>\<open>end_turn\<close>, then the loop performs exactly \<open>maxTurns\<close> rounds and stops at the turn
  limit without an error: the streaming variants end with a \<open>Done\<close> event that is the only
  terminal event, and the non-streaming variants return the turn-limit notice with
  \<^verbatim>\<open>needsContinue\<close> set. The OpenAI variants need no condition on the stop reason. Without a
  configured value \<open>maxTurns\<close> is 10.
\<close>

theorem turn_limit_reached:
  "(always_requests_tools claude \<and> never_ends_turn claude \<longrightarrow>
      rounds (chatStreamWithClaude tools (Some claude) maxTurns conversationHistory userMessage st) = nat maxTurns
      \<and> (\<exists>tcs. last (events (chatStreamWithClaude tools (Some claude) maxTurns conversationHistory userMessage st))
                 = Done (Some tcs))
      \<and> well_formed_stream (events (chatStreamWithClaude tools (Some claude) maxTurns conversationHistory userMessage st))
      \<and> chat_rounds (chatWithClaude tools (Some claude) provider maxTurns conversationHistory userMessage st)
           = nat maxTurns
      \<and> response_text (response (chatWithClaude tools (Some claude) provider maxTurns conversationHistory userMessage st))
           = turn_limit_notice
      \<and> needsContinue (response (chatWithClaude tools (Some claude) provider maxTurns conversationHistory userMessage st)))
   \<and> (always_streams_tool_calls openai_stream \<longrightarrow>
      rounds (chatStreamWithOpenAI tools JSON_parse (Some openai_stream) systemPrompt maxTurns openaiHistory
                userMessage st) = nat maxTurns
      \<and> (\<exists>tcs. last (events (chatStreamWithOpenAI tools JSON_parse (Some openai_stream) systemPrompt maxTurns
                                openaiHistory userMessage st)) = Done (Some tcs))
      \<and> well_formed_stream (events (chatStreamWithOpenAI tools JSON_parse (Some openai_stream) systemPrompt maxTurns
                                openaiHistory userMessage st)))
   \<and> (always_replies_tool_calls openai \<longrightarrow>
      chat_rounds (chatWithOpenAI tools JSON_parse (Some openai) provider systemPrompt maxTurns openaiHistory
                     userMessage st) = nat maxTurns
      \<and> response_text (response (chatWithOpenAI tools JSON_parse (Some openai) provider systemPrompt maxTurns
                                    openaiHistory userMessage st)) = turn_limit_notice
      \<and> needsContinue (response (chatWithOpenAI tools JSON_parse (Some openai) provider systemPrompt maxTurns
                                    openaiHistory userMessage st)))
   \<and> resolve_maxTurns None = 10"
proof (intro conjI impI)
  show "resolve_maxTurns None = 10" by (simp add: resolve_maxTurns_def)
  {
    assume a: "always_requests_tools claude \<and> never_ends_turn claude"
    then have a1: "always_requests_tools claude" and a2: "never_ends_turn claude" by auto
    note s = claude_stream_turn_limit [OF a1 a2, of tools maxTurns 0 "conversationHistory @ [UserText userMessage]" "[]" st]
    note c = claude_chat_turn_limit [OF a1 a2, of tools provider maxTurns 0 "conversationHistory @ [UserText userMessage]" "[]" st]
    show "rounds (chatStreamWithClaude tools (Some claude) maxTurns conversationHistory userMessage st) = nat maxTurns"
      using s by (simp add: chatStreamWithClaude_def)
    show "\<exists>tcs. last (events (chatStreamWithClaude tools (Some claude) maxTurns conversationHistory userMessage st))
                 = Done (Some tcs)"
      using s by (simp add: chatStreamWithClaude_def)
    show "well_formed_stream (events (chatStreamWithClaude tools (Some claude) maxTurns conversationHistory userMessage st))"
      by (simp add: chatStreamWithClaude_def claude_stream_well_formed)
    show "chat_rounds (chatWithClaude tools (Some claude) provider maxTurns conversationHistory userMessage st)
           = nat maxTurns"
      using c by (simp add: chatWithClaude_def)
    show "response_text (response (chatWithClaude tools (Some claude) provider maxTurns conversationHistory userMessage st))
           = turn_limit_notice"
      using c by (simp add: chatWithClaude_def)
    show "needsContinue (response (chatWithClaude tools (Some claude) provider maxTurns conversationHistory userMessage st))"
      using c by (simp add: chatWithClaude_def)
  }
  {
    assume a: "always_streams_tool_calls openai_stream"
    note s = openai_stream_turn_limit [OF a, of tools JSON_parse maxTurns 0
                "open_conversation systemPrompt openaiHistory userMessage" "[]" st]
    show "rounds (chatStreamWithOpenAI tools JSON_parse (Some openai_stream) systemPrompt maxTurns openaiHistory
                userMessage st) = nat maxTurns"
      using s by (simp add: chatStreamWithOpenAI_def)
    show "\<exists>tcs. last (events (chatStreamWithOpenAI tools JSON_parse (Some openai_stream) systemPrompt maxTurns
                                openaiHistory userMessage st)) = Done (Some tcs)"
      using s by (simp add: chatStreamWithOpenAI_def)
    show "well_formed_stream (events (chatStreamWithOpenAI tools JSON_parse (Some openai_stream) systemPrompt maxTurns
                                openaiHistory userMessage st))"
      by (simp add: chatStreamWithOpenAI_def openai_stream_well_formed)
  }
  {
    assume a: "always_replies_tool_calls openai"
    note c = openai_chat_turn_limit [OF a, of tools JSON_parse provider maxTurns 0
                "open_conversation systemPrompt openaiHistory userMessage" "[]" st]
    show "chat_rounds (chatWithOpenAI tools JSON_parse (Some openai) provider systemPrompt maxTurns openaiHistory
                     userMessage st) = nat maxTurns"
      using c by (simp add: chatWithOpenAI_def)
    show "response_text (response (chatWithOpenAI tools JSON_parse (Some openai) provider systemPrompt maxTurns
                                    openaiHistory userMessage st)) = turn_limit_notice"
      using c by (simp add: chatWithOpenAI_def)
    show "needsContinue (response (chatWithOpenAI tools JSON_parse (Some openai) provider systemPrompt maxTurns
                                    openaiHistory userMessage st))"
      using c by (simp add: chatWithOpenAI_def)
  }
qed

text \<open>
  The claim as worded fails for the Claude variants: a model that requests \<^verbatim>\<open>echo\<close> on every
  round and reports the stop reason \<^verbatim>\<open>end_turn\<close> makes the loop stop after one round of the
  ten allowed, and the non-streaming variant then returns the response text without the
  turn-limit notice and without \<^verbatim>\<open>needsContinue\<close>.
\<close>

theorem turn_limit_end_turn_counterexample:
  "always_requests_tools end_turn_claude
   \<and> rounds (chatStreamWithClaude [echo_tool] (Some end_turn_claude) 10 [] ''go'' start_state) = 1
   \<and> chat_rounds (chatWithClaude [echo_tool] (Some end_turn_claude) ''claude'' 10 [] ''go'' start_state) = 1
   \<and> \<not> needsContinue (response (chatWithClaude [echo_tool] (Some end_turn_claude) ''claude'' 10 [] ''go''
                                    start_state))
   \<and> response_text (response (chatWithClaude [echo_tool] (Some end_turn_claude) ''claude'' 10 [] ''go''
                                start_state)) \<noteq> turn_limit_notice"
proof -
  have a: "always_requests_tools end_turn_claude"
    by (simp add: always_requests_tools_def end_turn_claude_def echo_request_def)
  have b: "rounds (chatStreamWithClaude [echo_tool] (Some end_turn_claude) 10 [] ''go'' start_state) = 1"
    by code_simp
  have c: "chat_rounds (chatWithClaude [echo_tool] (Some end_turn_claude) ''claude'' 10 [] ''go'' start_state) = 1"
    by code_simp
  have d: "\<not> needsContinue (response (chatWithClaude [echo_tool] (Some end_turn_claude) ''claude'' 10 [] ''go''
                                    start_state))"
    by code_simp
  have e: "response_text (response (chatWithClaude [echo_tool] (Some end_turn_claude) ''claude'' 10 [] ''go''
                                start_state)) = []"
    by code_simp
  from a b c d e show ?thesis by (simp add: turn_limit_notice_def)
qed

text \<open>
  Models that request a tool call on every round, with 10 turns allowed.
\<close>

theorem turn_limit_reached_witness:
  "always_requests_tools insistent_claude \<and> never_ends_turn insistent_claude
   \<and> rounds (chatStreamWithClaude [echo_tool, ping_tool] (Some insistent_claude) 10 [] ''go'' start_state) = 10
   \<and> needsContinue (response (chatWithClaude [echo_tool, ping_tool] (Some insistent_claude) ''claude''
                                 10 [] ''go'' start_state))
   \<and> always_streams_tool_calls insistent_stream
   \<and> rounds (chatStreamWithOpenAI [echo_tool, ping_tool] parse_empty_object (Some insistent_stream) ''sys''
               10 [] ''go'' start_state) = 10
   \<and> always_replies_tool_calls insistent_reply
   \<and> chat_rounds (chatWithOpenAI [echo_tool, ping_tool] parse_empty_object (Some insistent_reply) ''claude'' ''sys''
                    10 [] ''go'' start_state) = 10
   \<and> needsContinue (response (chatWithOpenAI [echo_tool, ping_tool] parse_empty_object (Some insistent_reply)
                                 ''claude'' ''sys'' 10 [] ''go'' start_state))
   \<and> resolve_maxTurns None = 10"
proof -
  have a: "always_requests_tools insistent_claude \<and> never_ends_turn insistent_claude"
    by (simp add: always_requests_tools_def never_ends_turn_def insistent_claude_def echo_request_def)
  have p: "pending_calls (chunks ping_request) \<noteq> []" by code_simp
  have b: "always_streams_tool_calls insistent_stream"
    using p by (simp add: always_streams_tool_calls_def insistent_stream_def) (simp add: ping_request_def)
  have c: "always_replies_tool_calls insistent_reply"
    by (simp add: always_replies_tool_calls_def insistent_reply_def)
  note T = turn_limit_reached [where claude = insistent_claude and tools = "[echo_tool, ping_tool]"
      and maxTurns = 10 and conversationHistory = "[]" and userMessage = "''go''"
      and st = start_state and provider = "''claude''" and openai_stream = insistent_stream
      and JSON_parse = parse_empty_object and systemPrompt = "''sys''" and openaiHistory = "[]"
      and openai = insistent_reply]
  note T1 = T [THEN conjunct1, THEN mp, OF a]
  note T2 = T [THEN conjunct2, THEN conjunct1, THEN mp, OF b]
  note T3 = T [THEN conjunct2, THEN conjunct2, THEN conjunct1, THEN mp, OF c]
  note T4 = T [THEN conjunct2, THEN conjunct2, THEN conjunct2]
  from a T1 b T2 c T3 T4 show ?thesis by simp
qed

lemma dispatch_all_nth:
  "i < length invs \<Longrightarrow>
   \<exists>st'. fst (dispatch_all tools invs st) ! i = fst (executeTool tools (fst (invs ! i)) (snd (invs ! i)) st')"
proof (induction invs arbitrary: i st)
  case Nil
  then show ?case by simp
next
  case (Cons a invs)
  obtain nm inp where a: "a = (nm, inp)" by (cases a)
  obtain result st1 where e: "executeTool tools nm inp st = (result, st1)"
    by (cases "executeTool tools nm inp st")
  show ?case
  proof (cases i)
    case 0
    have "fst (dispatch_all tools (a # invs) st) ! 0 = fst (executeTool tools nm inp st)"
      by (simp add: a e case_prod_beta)
    with 0 a show ?thesis by auto
  next
    case (Suc j)
    with Cons.prems have j: "j < length invs" by simp
    from Cons.IH [OF j, of st1] obtain st' where
      "fst (dispatch_all tools invs st1) ! j = fst (executeTool tools (fst (invs ! j)) (snd (invs ! j)) st')"
      by blast
    then have "fst (dispatch_all tools (a # invs) st) ! i
        = fst (executeTool tools (fst ((a # invs) ! i)) (snd ((a # invs) ! i)) st')"
      by (simp add: a e Suc case_prod_beta)
    then show ?thesis by blast
  qed
qed

lemma claude_stream_end_turn:
  assumes "turn < maxTurns" "api h (world s) = (resp, w)" "thrown resp = None"
    "tool_uses (blocks resp) \<noteq> []" "stop_reason resp = ''end_turn''"
  shows "history_after (chatStreamWithClaude_loop tools api maxTurns turn h tcs s) =
           claude_round_history h resp (claude_round_results tools resp (s\<lparr>world := w\<rparr>))"
  using assms
  by (subst chatStreamWithClaude_loop.simps)
     (simp add: Let_def stream_tool_uses_closed requested_uses_def
        claude_round_results_def claude_round_history_def)

lemma claude_stream_no_uses:
  assumes "turn < maxTurns" "api h (world s) = (resp, w)" "thrown resp = None"
    "tool_uses (blocks resp) = []"
  shows "history_after (chatStreamWithClaude_loop tools api maxTurns turn h tcs s) = h @ [AssistantBlocks (blocks resp)]"
  using assms by (subst chatStreamWithClaude_loop.simps) (simp add: Let_def)

lemma claude_stream_thrown_history:
  assumes "turn < maxTurns" "api h (world s) = (resp, w)" "thrown resp = Some e"
  shows "history_after (chatStreamWithClaude_loop tools api maxTurns turn h tcs s) = h"
  using assms by (subst chatStreamWithClaude_loop.simps) (simp add: Let_def)

lemma claude_stream_history_extends:
  "\<exists>more. history_after (chatStreamWithClaude_loop tools api maxTurns turn h tcs s) = h @ more"
proof (induction "nat (maxTurns - turn)" arbitrary: turn h tcs s)
  case 0
  then have "\<not> turn < maxTurns" by simp
  then show ?case by (simp add: claude_stream_limit)
next
  case (Suc n)
  then have lt: "turn < maxTurns" by linarith
  obtain resp w where a: "api h (world s) = (resp, w)" by (cases "api h (world s)")
  have n: "n = nat (maxTurns - (turn + 1))" using Suc.hyps(2) by linarith
  show ?case
  proof (cases "thrown resp")
    case (Some e)
    then show ?thesis
      by (simp add: claude_stream_thrown_history [where api = api and h = h and s = s, OF lt a Some])
  next
    case None
    show ?thesis
    proof (cases "tool_uses (blocks resp) = []")
      case True
      then show ?thesis
        by (simp add: claude_stream_no_uses [where api = api and h = h and s = s, OF lt a None True])
    next
      case False
      show ?thesis
      proof (cases "stop_reason resp = ''end_turn''")
        case True
        then show ?thesis
          by (simp add: claude_stream_end_turn [where api = api and h = h and s = s, OF lt a None False True]
                claude_round_history_def)
      next
        case e: False
        define h2 where "h2 = claude_round_history h resp (claude_round_results tools resp (s\<lparr>world := w\<rparr>))"
        define tcs2 where "tcs2 = tcs @ recorded_calls (requested_uses (blocks resp))
                             (claude_round_results tools resp (s\<lparr>world := w\<rparr>))"
        define s2 where "s2 = claude_round_state tools resp (s\<lparr>world := w\<rparr>)"
        from Suc.hyps(1) [OF n, of h2 tcs2 s2] obtain more where
          m: "history_after (chatStreamWithClaude_loop tools api maxTurns (turn + 1) h2 tcs2 s2) = h2 @ more"
          by blast
        have "history_after (chatStreamWithClaude_loop tools api maxTurns turn h tcs s) = h2 @ more"
          by (subst claude_stream_continue [where api = api and h = h and s = s, OF lt a None False e])
             (simp add: m [unfolded h2_def tcs2_def s2_def] h2_def)
        then have "history_after (chatStreamWithClaude_loop tools api maxTurns turn h tcs s) =
            h @ ([AssistantBlocks (blocks resp),
                  UserToolResults (zip (map fst (tool_uses (blocks resp)))
                     (claude_round_results tools resp (s\<lparr>world := w\<rparr>)))] @ more)"
          by (simp add: h2_def claude_round_history_def)
        then show ?thesis by blast
      qed
    qed
  qed
qed

lemma claude_stream_results_recorded:
  assumes "turn < maxTurns" "api h (world s) = (resp, w)" "thrown resp = None"
    "tool_uses (blocks resp) \<noteq> []"
  shows "\<exists>more. history_after (chatStreamWithClaude_loop tools api maxTurns turn h tcs s) =
           claude_round_history h resp (claude_round_results tools resp (s\<lparr>world := w\<rparr>)) @ more"
proof (cases "stop_reason resp = ''end_turn''")
  case True
  then show ?thesis
    by (simp add: claude_stream_end_turn [where api = api and h = h and s = s, OF assms True])
next
  case False
  from claude_stream_history_extends obtain more where
    m: "history_after (chatStreamWithClaude_loop tools api maxTurns (turn + 1)
         (claude_round_history h resp (claude_round_results tools resp (s\<lparr>world := w\<rparr>)))
         (tcs @ recorded_calls (requested_uses (blocks resp)) (claude_round_results tools resp (s\<lparr>world := w\<rparr>)))
         (claude_round_state tools resp (s\<lparr>world := w\<rparr>)))
        = claude_round_history h resp (claude_round_results tools resp (s\<lparr>world := w\<rparr>)) @ more"
    by blast
  show ?thesis
    by (subst claude_stream_continue [where api = api and h = h and s = s, OF assms False])
       (simp add: m)
qed

lemma openai_stream_thrown_history:
  assumes "turn < maxTurns" "api h (world s) = (resp, w)" "stream_thrown resp = Some e"
  shows "history_after (chatStreamWithOpenAI_loop tools P api maxTurns turn h tcs s) = h"
proof -
  obtain texts fullText pend where f: "foldl read_chunk ([], [], []) (chunks resp) = (texts, fullText, pend)"
    by (cases "foldl read_chunk ([], [], []) (chunks resp)") auto
  show ?thesis
    using assms f by (subst chatStreamWithOpenAI_loop.simps) (simp add: Let_def)
qed

lemma openai_stream_no_calls:
  assumes "turn < maxTurns" "api h (world s) = (resp, w)" "stream_thrown resp = None"
    "pending_calls (chunks resp) = []"
  shows "history_after (chatStreamWithOpenAI_loop tools P api maxTurns turn h tcs s) =
           h @ [AssistantMessage (full_text (chunks resp))]"
proof -
  obtain texts fullText pend where f: "foldl read_chunk ([], [], []) (chunks resp) = (texts, fullText, pend)"
    by (cases "foldl read_chunk ([], [], []) (chunks resp)") auto
  show ?thesis
    using assms f
    by (subst chatStreamWithOpenAI_loop.simps) (simp add: Let_def pending_calls_def full_text_def)
qed

lemma openai_stream_history_extends:
  "\<exists>more. history_after (chatStreamWithOpenAI_loop tools P api maxTurns turn h tcs s) = h @ more"
proof (induction "nat (maxTurns - turn)" arbitrary: turn h tcs s)
  case 0
  then have "\<not> turn < maxTurns" by simp
  then show ?case by (simp add: openai_stream_limit)
next
  case (Suc n)
  then have lt: "turn < maxTurns" by linarith
  obtain resp w where a: "api h (world s) = (resp, w)" by (cases "api h (world s)")
  have n: "n = nat (maxTurns - (turn + 1))" using Suc.hyps(2) by linarith
  show ?case
  proof (cases "stream_thrown resp")
    case (Some e)
    then show ?thesis
      by (simp add: openai_stream_thrown_history [where api = api and h = h and s = s, OF lt a Some])
  next
    case None
    show ?thesis
    proof (cases "pending_calls (chunks resp) = []")
      case True
      then show ?thesis
        by (simp add: openai_stream_no_calls [where api = api and h = h and s = s, OF lt a None True])
    next
      case False
      define h2 where "h2 =
         (h @ [AssistantToolCalls (if full_text (chunks resp) = [] then None else Some (full_text (chunks resp)))
                  (pending_calls (chunks resp))])
          @ tool_messages (pending_calls (chunks resp))
              (fst (dispatch_all tools (requested_of P (pending_calls (chunks resp))) (s\<lparr>world := w\<rparr>)))"
      define tcs2 where "tcs2 = tcs @ recorded_calls (requested_of P (pending_calls (chunks resp)))
                  (fst (dispatch_all tools (requested_of P (pending_calls (chunks resp))) (s\<lparr>world := w\<rparr>)))"
      define s2 where "s2 = snd (dispatch_all tools (requested_of P (pending_calls (chunks resp))) (s\<lparr>world := w\<rparr>))"
      from Suc.hyps(1) [OF n, of h2 tcs2 s2] obtain more where
        m: "history_after (chatStreamWithOpenAI_loop tools P api maxTurns (turn + 1) h2 tcs2 s2) = h2 @ more"
        by blast
      have "history_after (chatStreamWithOpenAI_loop tools P api maxTurns turn h tcs s) =
            history_after (chatStreamWithOpenAI_loop tools P api maxTurns (turn + 1) h2 tcs2 s2)"
        unfolding h2_def tcs2_def s2_def
        by (subst openai_stream_continue [where api = api and h = h and s = s, OF lt a None False]) simp
      with m have "history_after (chatStreamWithOpenAI_loop tools P api maxTurns turn h tcs s) = h2 @ more"
        by simp
      then have "history_after (chatStreamWithOpenAI_loop tools P api maxTurns turn h tcs s) =
          h @ ([AssistantToolCalls (if full_text (chunks resp) = [] then None else Some (full_text (chunks resp)))
                  (pending_calls (chunks resp))]
          @ tool_messages (pending_calls (chunks resp))
              (fst (dispatch_all tools (requested_of P (pending_calls (chunks resp))) (s\<lparr>world := w\<rparr>)))
          @ more)"
        by (simp add: h2_def)
      then show ?thesis by blast
    qed
  qed
qed

lemma openai_stream_results_recorded:
  assumes "turn < maxTurns" "api h (world s) = (resp, w)" "stream_thrown resp = None"
    "pending_calls (chunks resp) \<noteq> []"
  shows "\<exists>more. history_after (chatStreamWithOpenAI_loop tools P api maxTurns turn h tcs s) =
           (h @ [AssistantToolCalls (if full_text (chunks resp) = [] then None else Some (full_text (chunks resp)))
                  (pending_calls (chunks resp))])
           @ tool_messages (pending_calls (chunks resp))
               (fst (dispatch_all tools (requested_of P (pending_calls (chunks resp))) (s\<lparr>world := w\<rparr>)))
           @ more"
proof -
  define h2 where "h2 =
         (h @ [AssistantToolCalls (if full_text (chunks resp) = [] then None else Some (full_text (chunks resp)))
                  (pending_calls (chunks resp))])
          @ tool_messages (pending_calls (chunks resp))
              (fst (dispatch_all tools (requested_of P (pending_calls (chunks resp))) (s\<lparr>world := w\<rparr>)))"
  define tcs2 where "tcs2 = tcs @ recorded_calls (requested_of P (pending_calls (chunks resp)))
                  (fst (dispatch_all tools (requested_of P (pending_calls (chunks resp))) (s\<lparr>world := w\<rparr>)))"
  define s2 where "s2 = snd (dispatch_all tools (requested_of P (pending_calls (chunks resp))) (s\<lparr>world := w\<rparr>))"
  from openai_stream_history_extends [of tools P api maxTurns "turn + 1" h2 tcs2 s2] obtain more where
    m: "history_after (chatStreamWithOpenAI_loop tools P api maxTurns (turn + 1) h2 tcs2 s2) = h2 @ more"
    by blast
  have "history_after (chatStreamWithOpenAI_loop tools P api maxTurns turn h tcs s) =
        history_after (chatStreamWithOpenAI_loop tools P api maxTurns (turn + 1) h2 tcs2 s2)"
    unfolding h2_def tcs2_def s2_def
    by (subst openai_stream_continue [where api = api and h = h and s = s, OF assms]) simp
  with m have "history_after (chatStreamWithOpenAI_loop tools P api maxTurns turn h tcs s) = h2 @ more"
    by simp
  then have "history_after (chatStreamWithOpenAI_loop tools P api maxTurns turn h tcs s) =
           (h @ [AssistantToolCalls (if full_text (chunks resp) = [] then None else Some (full_text (chunks resp)))
                  (pending_calls (chunks resp))])
           @ tool_messages (pending_calls (chunks resp))
               (fst (dispatch_all tools (requested_of P (pending_calls (chunks resp))) (s\<lparr>world := w\<rparr>)))
           @ more"
    by (simp add: h2_def)
  then show ?thesis by blast
qed

text \<open>
  Claim C9, as amended. \<open>executeTool\<close> returns a value on every path. An unknown
  capability name, an input that fails validation and an exception thrown by the handler
  each give the result \<^verbatim>\<open>{ error: ... }\<close> for that invocation. Arguments that
  \<^verbatim>\<open>JSON.parse\<close> rejects are replaced by the empty object, with which the capability is then
  dispatched like any other input. A round dispatches every requested invocation: there
  is one result per invocation, the \<open>i\<close>-th being what \<open>executeTool\<close> returned for the
  \<open>i\<close>-th invocation. In a streaming round that requests invocations, all their event pairs
  are emitted and followed by a well-formed rest, and the conversation after the run holds,
  right after the conversation sent, the assistant message and one result record per
  invocation. A failure of the inference request itself ends the run with the events
  already emitted followed by an \<open>Error\<close> event.
\<close>

theorem capability_failures_become_results:
  "(getTool tools nm = None \<longrightarrow>
      executeTool tools nm inp st = (JObj [(''error'', JStr (''unknown tool: '' @ nm))], st))
   \<and> (getTool tools nm = Some tool \<and> parameters tool inp = Inl e \<longrightarrow>
      executeTool tools nm inp st = (JObj [(''error'', JStr (''tool execution failed: '' @ e))], st))
   \<and> (getTool tools nm = Some tool \<and> parameters tool inp = Inr v \<and> handler tool v (world st) = (Inl e, w) \<longrightarrow>
      fst (executeTool tools nm inp st) = JObj [(''error'', JStr (''tool execution failed: '' @ e))])
   \<and> (JSON_parse arguments = None \<longrightarrow> parse_arguments JSON_parse arguments = JObj [])
   \<and> length (fst (dispatch_all tools invs st)) = length invs
   \<and> (i < length invs \<longrightarrow>
        (\<exists>st'. fst (dispatch_all tools invs st) ! i
                 = fst (executeTool tools (fst (invs ! i)) (snd (invs ! i)) st')))
   \<and> (turn < maxTurns \<and> claude h (world s) = (resp, w') \<and> thrown resp = None
        \<and> tool_uses (blocks resp) \<noteq> [] \<longrightarrow>
        (\<exists>rest more.
           events (chatStreamWithClaude_loop tools claude maxTurns turn h tcs s) =
             map Text (deltas resp)
             @ invocation_events (requested_uses (blocks resp)) (claude_round_results tools resp (s\<lparr>world := w'\<rparr>))
             @ rest
           \<and> well_formed_stream rest
           \<and> history_after (chatStreamWithClaude_loop tools claude maxTurns turn h tcs s) =
               h @ [AssistantBlocks (blocks resp),
                    UserToolResults (zip (map fst (tool_uses (blocks resp)))
                                       (claude_round_results tools resp (s\<lparr>world := w'\<rparr>)))]
                 @ more))
   \<and> (turn < maxTurns \<and> openai h' (world s) = (resp', w') \<and> stream_thrown resp' = None
        \<and> pending_calls (chunks resp') \<noteq> [] \<longrightarrow>
        (\<exists>rest more.
           events (chatStreamWithOpenAI_loop tools JSON_parse openai maxTurns turn h' tcs s) =
             stream_texts (chunks resp')
             @ invocation_events (requested_of JSON_parse (pending_calls (chunks resp')))
                 (fst (dispatch_all tools (requested_of JSON_parse (pending_calls (chunks resp'))) (s\<lparr>world := w'\<rparr>)))
             @ rest
           \<and> well_formed_stream rest
           \<and> history_after (chatStreamWithOpenAI_loop tools JSON_parse openai maxTurns turn h' tcs s) =
               h' @ [AssistantToolCalls (if full_text (chunks resp') = [] then None
                                         else Some (full_text (chunks resp')))
                       (pending_calls (chunks resp'))]
                  @ tool_messages (pending_calls (chunks resp'))
                      (fst (dispatch_all tools (requested_of JSON_parse (pending_calls (chunks resp')))
                              (s\<lparr>world := w'\<rparr>)))
                  @ more))
   \<and> (turn < maxTurns \<and> claude h (world s) = (resp, w') \<and> thrown resp = Some msg \<longrightarrow>
        events (chatStreamWithClaude_loop tools claude maxTurns turn h tcs s) = map Text (deltas resp) @ [Error msg])
   \<and> (turn < maxTurns \<and> openai h' (world s) = (resp', w') \<and> stream_thrown resp' = Some msg \<longrightarrow>
        events (chatStreamWithOpenAI_loop tools JSON_parse openai maxTurns turn h' tcs s) =
          stream_texts (chunks resp') @ [Error msg])"
proof (intro conjI impI)
  show "length (fst (dispatch_all tools invs st)) = length invs" by (rule length_dispatch_all)
  { assume "getTool tools nm = None"
    then show "executeTool tools nm inp st = (JObj [(''error'', JStr (''unknown tool: '' @ nm))], st)"
      by (simp add: executeTool.simps) }
  { assume "getTool tools nm = Some tool \<and> parameters tool inp = Inl e"
    then show "executeTool tools nm inp st = (JObj [(''error'', JStr (''tool execution failed: '' @ e))], st)"
      by (simp add: executeTool.simps caught_def) }
  { assume "getTool tools nm = Some tool \<and> parameters tool inp = Inr v \<and> handler tool v (world st) = (Inl e, w)"
    then show "fst (executeTool tools nm inp st) = JObj [(''error'', JStr (''tool execution failed: '' @ e))]"
      by (simp add: executeTool.simps caught_def) }
  { assume "JSON_parse arguments = None"
    then show "parse_arguments JSON_parse arguments = JObj []" by (simp add: parse_arguments_def) }
  { assume "i < length invs"
    then show "\<exists>st'. fst (dispatch_all tools invs st) ! i
                 = fst (executeTool tools (fst (invs ! i)) (snd (invs ! i)) st')"
      by (rule dispatch_all_nth) }
  { assume a: "turn < maxTurns \<and> claude h (world s) = (resp, w') \<and> thrown resp = None
        \<and> tool_uses (blocks resp) \<noteq> []"
    then have lt: "turn < maxTurns" and c: "claude h (world s) = (resp, w')" and t: "thrown resp = None"
      and u: "tool_uses (blocks resp) \<noteq> []" by auto
    from claude_stream_results_recorded [where api = claude and h = h and s = s, OF lt c t u, of tools tcs]
    obtain more where m: "history_after (chatStreamWithClaude_loop tools claude maxTurns turn h tcs s) =
           claude_round_history h resp (claude_round_results tools resp (s\<lparr>world := w'\<rparr>)) @ more"
      by blast
    have wf: "\<And>h2 tcs2 s2. well_formed_stream
        (events (chatStreamWithClaude_loop tools claude maxTurns (turn + 1) h2 tcs2 s2))"
      by (rule claude_stream_well_formed)
    have "\<exists>rest. events (chatStreamWithClaude_loop tools claude maxTurns turn h tcs s) =
             map Text (deltas resp)
             @ invocation_events (requested_uses (blocks resp)) (claude_round_results tools resp (s\<lparr>world := w'\<rparr>))
             @ rest
           \<and> well_formed_stream rest"
      apply (subst claude_stream_round [where api = claude and h = h and s = s, OF lt c t])
      apply (simp add: claude_round_results_def u)
      apply (auto simp: well_formed_terminal is_terminal_def wf)
      done
    with m show "\<exists>rest more.
           events (chatStreamWithClaude_loop tools claude maxTurns turn h tcs s) =
             map Text (deltas resp)
             @ invocation_events (requested_uses (blocks resp)) (claude_round_results tools resp (s\<lparr>world := w'\<rparr>))
             @ rest
           \<and> well_formed_stream rest
           \<and> history_after (chatStreamWithClaude_loop tools claude maxTurns turn h tcs s) =
               h @ [AssistantBlocks (blocks resp),
                    UserToolResults (zip (map fst (tool_uses (blocks resp)))
                                       (claude_round_results tools resp (s\<lparr>world := w'\<rparr>)))]
                 @ more"
      by (auto simp: claude_round_history_def) }
  { assume a: "turn < maxTurns \<and> openai h' (world s) = (resp', w') \<and> stream_thrown resp' = None
        \<and> pending_calls (chunks resp') \<noteq> []"
    then have lt: "turn < maxTurns" and c: "openai h' (world s) = (resp', w')" and t: "stream_thrown resp' = None"
      and u: "pending_calls (chunks resp') \<noteq> []" by auto
    from openai_stream_results_recorded [where api = openai and h = h' and s = s, OF lt c t u, of tools JSON_parse tcs]
    obtain more where m: "history_after (chatStreamWithOpenAI_loop tools JSON_parse openai maxTurns turn h' tcs s) =
           (h' @ [AssistantToolCalls (if full_text (chunks resp') = [] then None else Some (full_text (chunks resp')))
                  (pending_calls (chunks resp'))])
           @ tool_messages (pending_calls (chunks resp'))
               (fst (dispatch_all tools (requested_of JSON_parse (pending_calls (chunks resp'))) (s\<lparr>world := w'\<rparr>)))
           @ more"
      by blast
    have wf: "\<And>h2 tcs2 s2. well_formed_stream
        (events (chatStreamWithOpenAI_loop tools JSON_parse openai maxTurns (turn + 1) h2 tcs2 s2))"
      by (rule openai_stream_well_formed)
    have ev: "events (chatStreamWithOpenAI_loop tools JSON_parse openai maxTurns turn h' tcs s) =
             stream_texts (chunks resp')
             @ invocation_events (requested_of JSON_parse (pending_calls (chunks resp')))
                 (fst (dispatch_all tools (requested_of JSON_parse (pending_calls (chunks resp'))) (s\<lparr>world := w'\<rparr>)))
             @ events (chatStreamWithOpenAI_loop tools JSON_parse openai maxTurns (turn + 1)
                 ((h' @ [AssistantToolCalls (if full_text (chunks resp') = [] then None else Some (full_text (chunks resp')))
                      (pending_calls (chunks resp'))])
                  @ tool_messages (pending_calls (chunks resp'))
                      (fst (dispatch_all tools (requested_of JSON_parse (pending_calls (chunks resp'))) (s\<lparr>world := w'\<rparr>))))
                 (tcs @ recorded_calls (requested_of JSON_parse (pending_calls (chunks resp')))
                      (fst (dispatch_all tools (requested_of JSON_parse (pending_calls (chunks resp'))) (s\<lparr>world := w'\<rparr>))))
                 (snd (dispatch_all tools (requested_of JSON_parse (pending_calls (chunks resp'))) (s\<lparr>world := w'\<rparr>))))"
      by (subst openai_stream_continue [where api = openai and h = h' and s = s, OF lt c t u]) simp
    show "\<exists>rest more.
           events (chatStreamWithOpenAI_loop tools JSON_parse openai maxTurns turn h' tcs s) =
             stream_texts (chunks resp')
             @ invocation_events (requested_of JSON_parse (pending_calls (chunks resp')))
                 (fst (dispatch_all tools (requested_of JSON_parse (pending_calls (chunks resp'))) (s\<lparr>world := w'\<rparr>)))
             @ rest
           \<and> well_formed_stream rest
           \<and> history_after (chatStreamWithOpenAI_loop tools JSON_parse openai maxTurns turn h' tcs s) =
               h' @ [AssistantToolCalls (if full_text (chunks resp') = [] then None
                                         else Some (full_text (chunks resp')))
                       (pending_calls (chunks resp'))]
                  @ tool_messages (pending_calls (chunks resp'))
                      (fst (dispatch_all tools (requested_of JSON_parse (pending_calls (chunks resp')))
                              (s\<lparr>world := w'\<rparr>)))
                  @ more"
      using ev m wf by (metis append.assoc) }
  { assume "turn < maxTurns \<and> claude h (world s) = (resp, w') \<and> thrown resp = Some msg"
    then show "events (chatStreamWithClaude_loop tools claude maxTurns turn h tcs s) = map Text (deltas resp) @ [Error msg]"
      using claude_stream_thrown [where api = claude and h = h and s = s] by blast }
  { assume "turn < maxTurns \<and> openai h' (world s) = (resp', w') \<and> stream_thrown resp' = Some msg"
    then show "events (chatStreamWithOpenAI_loop tools JSON_parse openai maxTurns turn h' tcs s) =
          stream_texts (chunks resp') @ [Error msg]"
      using openai_stream_thrown [where api = openai and h = h' and s = s] by blast }
qed

text \<open>
  The claim as worded has unparseable arguments converted into a failure result. With a
  capability whose schema accepts the empty object, the unparseable arguments \<^verbatim>\<open>"{"\<close> are
  replaced by \<^verbatim>\<open>{}\<close>, the handler runs, and the result recorded in the events and in the
  conversation is the handler's success, which has no error field.
\<close>

theorem unparseable_arguments_counterexample:
  "parse_empty_object ''{'' = None
   \<and> pending_calls (chunks unclosed_ping_request) =
        [\<lparr>pending_id = ''call_1'', pending_name = ''ping'', pending_arguments = ''{''\<rparr>]
   \<and> events (chatStreamWithOpenAI [ping_tool] parse_empty_object (Some unclosed_arguments_stream) ''sys'' 10 []
                ''go'' start_state) =
       [ToolStart ''ping'', ToolEnd ''ping'' (JObj [(''success'', JBool True)]), Text ''do'', Text ''ne'',
        Done (Some [\<lparr>call_name = ''ping'', call_input = JObj [],
                       call_output = JObj [(''success'', JBool True)]\<rparr>])]
   \<and> history_after (chatStreamWithOpenAI [ping_tool] parse_empty_object (Some unclosed_arguments_stream) ''sys'' 10 []
                ''go'' start_state) =
       [SystemMessage ''sys'', UserMessage ''go'',
        AssistantToolCalls None [\<lparr>pending_id = ''call_1'', pending_name = ''ping'', pending_arguments = ''{''\<rparr>],
        ToolMessage ''call_1'' (JObj [(''success'', JBool True)]),
        AssistantMessage ''done'']
   \<and> get_field (JObj [(''success'', JBool True)]) ''error'' = JUndefined
   \<and> \<not> isToolFailure (JObj [(''success'', JBool True)])"
proof -
  have a: "parse_empty_object ''{'' = None" by (simp add: parse_empty_object_def)
  have b: "pending_calls (chunks unclosed_ping_request) =
        [\<lparr>pending_id = ''call_1'', pending_name = ''ping'', pending_arguments = ''{''\<rparr>]"
    by code_simp
  have c: "events (chatStreamWithOpenAI [ping_tool] parse_empty_object (Some unclosed_arguments_stream) ''sys'' 10 []
                ''go'' start_state) =
       [ToolStart ''ping'', ToolEnd ''ping'' (JObj [(''success'', JBool True)]), Text ''do'', Text ''ne'',
        Done (Some [\<lparr>call_name = ''ping'', call_input = JObj [],
                       call_output = JObj [(''success'', JBool True)]\<rparr>])]"
    by code_simp
  have d: "history_after (chatStreamWithOpenAI [ping_tool] parse_empty_object (Some unclosed_arguments_stream) ''sys'' 10 []
                ''go'' start_state) =
       [SystemMessage ''sys'', UserMessage ''go'',
        AssistantToolCalls None [\<lparr>pending_id = ''call_1'', pending_name = ''ping'', pending_arguments = ''{''\<rparr>],
        ToolMessage ''call_1'' (JObj [(''success'', JBool True)]),
        AssistantMessage ''done'']"
    by code_simp
  have e: "get_field (JObj [(''success'', JBool True)]) ''error'' = JUndefined"
    by (simp add: get_field_def)
  have f: "\<not> isToolFailure (JObj [(''success'', JBool True)])"
    by (simp add: isToolFailure_def get_field_def truthy_def typeof_object_def)
  from a b c d e f show ?thesis by blast
qed

text \<open>
  An unknown name, an input the \<^verbatim>\<open>echo\<close> schema rejects, a handler that throws,
  arguments that do not parse, the scenario's rounds under both protocols, and providers
  whose request fails after the text "par".
\<close>

theorem capability_failures_become_results_witness:
  "getTool [echo_tool, ping_tool, failing_tool] ''nope'' = None
   \<and> executeTool [echo_tool, ping_tool, failing_tool] ''nope'' (JObj []) start_state
        = (JObj [(''error'', JStr ''unknown tool: nope'')], start_state)
   \<and> getTool [echo_tool, ping_tool, failing_tool] ''echo'' = Some echo_tool
   \<and> parameters echo_tool (JObj []) = Inl ''ZodError: text: Required''
   \<and> executeTool [echo_tool, ping_tool, failing_tool] ''echo'' (JObj []) start_state
        = (JObj [(''error'', JStr ''tool execution failed: ZodError: text: Required'')], start_state)
   \<and> getTool [echo_tool, ping_tool, failing_tool] ''broken'' = Some failing_tool
   \<and> parameters failing_tool (JObj []) = Inr (JObj [])
   \<and> handler failing_tool (JObj []) (world start_state) = (Inl ''Error: boom'', ())
   \<and> fst (executeTool [echo_tool, ping_tool, failing_tool] ''broken'' (JObj []) start_state)
        = JObj [(''error'', JStr ''tool execution failed: Error: boom'')]
   \<and> parse_empty_object ''{'' = None
   \<and> parse_arguments parse_empty_object ''{'' = JObj []
   \<and> (0::nat) < length [(''nope'', JObj []), (''ping'', JObj [])]
   \<and> (\<exists>st'. fst (dispatch_all [echo_tool, ping_tool, failing_tool] [(''nope'', JObj []), (''ping'', JObj [])]
                    start_state) ! 0
               = fst (executeTool [echo_tool, ping_tool, failing_tool]
                        (fst ([(''nope'', JObj []), (''ping'', JObj [])] ! 0))
                        (snd ([(''nope'', JObj []), (''ping'', JObj [])] ! 0)) st'))
   \<and> fst (dispatch_all [echo_tool, ping_tool, failing_tool] [(''nope'', JObj []), (''ping'', JObj [])] start_state)
        = [JObj [(''error'', JStr ''unknown tool: nope'')], JObj [(''success'', JBool True)]]
   \<and> (0::int) < 10
   \<and> scenario_claude [UserText ''go''] (world start_state) = (echo_request, ())
   \<and> thrown echo_request = None \<and> tool_uses (blocks echo_request) \<noteq> []
   \<and> (\<exists>rest more.
         events (chatStreamWithClaude_loop [echo_tool, ping_tool, failing_tool] scenario_claude 10 0
                   [UserText ''go''] [] start_state) =
           map Text (deltas echo_request)
           @ invocation_events (requested_uses (blocks echo_request))
               (claude_round_results [echo_tool, ping_tool, failing_tool] echo_request (start_state\<lparr>world := ()\<rparr>))
           @ rest
         \<and> well_formed_stream rest
         \<and> history_after (chatStreamWithClaude_loop [echo_tool, ping_tool, failing_tool] scenario_claude 10 0
                   [UserText ''go''] [] start_state) =
             [UserText ''go''] @ [AssistantBlocks (blocks echo_request),
                  UserToolResults (zip (map fst (tool_uses (blocks echo_request)))
                     (claude_round_results [echo_tool, ping_tool, failing_tool] echo_request
                        (start_state\<lparr>world := ()\<rparr>)))]
               @ more)
   \<and> scenario_openai [SystemMessage ''sys'', UserMessage ''go''] (world start_state) = (ping_request, ())
   \<and> stream_thrown ping_request = None \<and> pending_calls (chunks ping_request) \<noteq> []
   \<and> (\<exists>rest more.
         events (chatStreamWithOpenAI_loop [echo_tool, ping_tool, failing_tool] parse_empty_object scenario_openai
                   10 0 [SystemMessage ''sys'', UserMessage ''go''] [] start_state) =
           stream_texts (chunks ping_request)
           @ invocation_events (requested_of parse_empty_object (pending_calls (chunks ping_request)))
               (fst (dispatch_all [echo_tool, ping_tool, failing_tool]
                       (requested_of parse_empty_object (pending_calls (chunks ping_request)))
                       (start_state\<lparr>world := ()\<rparr>)))
           @ rest
         \<and> well_formed_stream rest)
   \<and> failing_claude [UserText ''go''] (world start_state)
        = (\<lparr>deltas = [''par''], thrown = Some ''overloaded'', blocks = [], stop_reason = []\<rparr>, ())
   \<and> events (chatStreamWithClaude_loop [echo_tool, ping_tool, failing_tool] failing_claude 10 0
                [UserText ''go''] [] start_state) = [Text ''par'', Error ''overloaded'']
   \<and> failing_stream [SystemMessage ''sys'', UserMessage ''go''] (world start_state)
        = (\<lparr>chunks = [Some \<lparr>delta_content = Some ''par'', delta_tool_calls = None\<rparr>],
            stream_thrown = Some ''overloaded''\<rparr>, ())
   \<and> events (chatStreamWithOpenAI_loop [echo_tool, ping_tool, failing_tool] parse_empty_object failing_stream
                10 0 [SystemMessage ''sys'', UserMessage ''go''] [] start_state) = [Text ''par'', Error ''overloaded'']"
proof -
  let ?tools = "[echo_tool, ping_tool, failing_tool]"
  let ?invs = "[(''nope'', JObj []), (''ping'', JObj [])]"
  have g1: "getTool ?tools ''nope'' = None"
    by (simp add: getTool_def echo_tool_def ping_tool_def failing_tool_def)
  have g2: "getTool ?tools ''echo'' = Some echo_tool \<and> parameters echo_tool (JObj []) = Inl ''ZodError: text: Required''"
    by (simp add: getTool_def echo_tool_def get_field_def)
  have g3: "getTool ?tools ''broken'' = Some failing_tool \<and> parameters failing_tool (JObj []) = Inr (JObj [])
      \<and> handler failing_tool (JObj []) (world start_state) = (Inl ''Error: boom'', ())"
    by (simp add: getTool_def echo_tool_def ping_tool_def failing_tool_def)
  have p: "parse_empty_object ''{'' = None" by (simp add: parse_empty_object_def)
  have i0: "(0::nat) < length ?invs" by simp
  have hc: "(0::int) < 10 \<and> scenario_claude [UserText ''go''] (world start_state) = (echo_request, ())
      \<and> thrown echo_request = None \<and> tool_uses (blocks echo_request) \<noteq> []"
    by (simp add: scenario_claude_def echo_request_def)
  have pc: "pending_calls (chunks ping_request) \<noteq> []" by code_simp
  have ho: "(0::int) < 10 \<and> scenario_openai [SystemMessage ''sys'', UserMessage ''go''] (world start_state) = (ping_request, ())
      \<and> stream_thrown ping_request = None \<and> pending_calls (chunks ping_request) \<noteq> []"
    using pc by (simp add: scenario_openai_def) (simp add: ping_request_def)
  have fc: "(0::int) < 10 \<and> failing_claude [UserText ''go''] (world start_state)
        = (\<lparr>deltas = [''par''], thrown = Some ''overloaded'', blocks = [], stop_reason = []\<rparr>, ())
      \<and> thrown \<lparr>deltas = [''par''], thrown = Some ''overloaded'', blocks = [], stop_reason = []\<rparr> = Some ''overloaded''"
    by (simp add: failing_claude_def)
  have fo: "(0::int) < 10 \<and> failing_stream [SystemMessage ''sys'', UserMessage ''go''] (world start_state)
        = (\<lparr>chunks = [Some \<lparr>delta_content = Some ''par'', delta_tool_calls = None\<rparr>],
            stream_thrown = Some ''overloaded''\<rparr>, ())
      \<and> stream_thrown \<lparr>chunks = [Some \<lparr>delta_content = Some ''par'', delta_tool_calls = None\<rparr>],
            stream_thrown = Some ''overloaded''\<rparr> = Some ''overloaded''"
    by (simp add: failing_stream_def)
  note A = capability_failures_become_results [where tools = ?tools and nm = "''nope''" and inp = "JObj []"
      and st = start_state and JSON_parse = parse_empty_object and arguments = "''{''" and invs = ?invs and i = 0
      and turn = 0 and maxTurns = 10 and claude = scenario_claude and h = "[UserText ''go'']" and s = start_state
      and resp = echo_request and w' = "()" and tcs = "[]" and openai = scenario_openai
      and h' = "[SystemMessage ''sys'', UserMessage ''go'']" and resp' = ping_request]
  note B = capability_failures_become_results [where tools = ?tools and nm = "''echo''" and inp = "JObj []"
      and st = start_state and tool = echo_tool and e = "''ZodError: text: Required''"]
  note C = capability_failures_become_results [where tools = ?tools and nm = "''broken''" and inp = "JObj []"
      and st = start_state and tool = failing_tool and v = "JObj []" and e = "''Error: boom''" and w = "()"]
  note D = capability_failures_become_results [where tools = ?tools and JSON_parse = parse_empty_object
      and turn = 0 and maxTurns = 10 and claude = failing_claude and h = "[UserText ''go'']" and s = start_state
      and resp = "\<lparr>deltas = [''par''], thrown = Some ''overloaded'', blocks = [], stop_reason = []\<rparr>"
      and w' = "()" and tcs = "[]" and openai = failing_stream
      and h' = "[SystemMessage ''sys'', UserMessage ''go'']"
      and resp' = "\<lparr>chunks = [Some \<lparr>delta_content = Some ''par'', delta_tool_calls = None\<rparr>],
            stream_thrown = Some ''overloaded''\<rparr>" and msg = "''overloaded''"]
  have r1: "executeTool ?tools ''nope'' (JObj []) start_state
        = (JObj [(''error'', JStr ''unknown tool: nope'')], start_state)"
    using A [THEN conjunct1, THEN mp, OF g1] by simp
  have r2: "executeTool ?tools ''echo'' (JObj []) start_state
        = (JObj [(''error'', JStr ''tool execution failed: ZodError: text: Required'')], start_state)"
    using B [THEN conjunct2, THEN conjunct1, THEN mp, OF g2] by simp
  have r3: "fst (executeTool ?tools ''broken'' (JObj []) start_state)
        = JObj [(''error'', JStr ''tool execution failed: Error: boom'')]"
    using C [THEN conjunct2, THEN conjunct2, THEN conjunct1, THEN mp, OF g3] by simp
  have r4: "parse_arguments parse_empty_object ''{'' = JObj []"
    using A [THEN conjunct2, THEN conjunct2, THEN conjunct2, THEN conjunct1, THEN mp, OF p] .
  note r5' = A [THEN conjunct2, THEN conjunct2, THEN conjunct2, THEN conjunct2, THEN conjunct2, THEN conjunct1,
      THEN mp, OF i0]
  have r5: "fst (dispatch_all ?tools ?invs start_state)
        = [JObj [(''error'', JStr ''unknown tool: nope'')], JObj [(''success'', JBool True)]]"
    by code_simp
  note r6 = A [THEN conjunct2, THEN conjunct2, THEN conjunct2, THEN conjunct2, THEN conjunct2, THEN conjunct2,
      THEN conjunct1, THEN mp, OF hc]
  note r7 = A [THEN conjunct2, THEN conjunct2, THEN conjunct2, THEN conjunct2, THEN conjunct2, THEN conjunct2,
      THEN conjunct2, THEN conjunct1, THEN mp, OF ho]
  have r7': "\<exists>rest more.
         events (chatStreamWithOpenAI_loop ?tools parse_empty_object scenario_openai
                   10 0 [SystemMessage ''sys'', UserMessage ''go''] [] start_state) =
           stream_texts (chunks ping_request)
           @ invocation_events (requested_of parse_empty_object (pending_calls (chunks ping_request)))
               (fst (dispatch_all ?tools
                       (requested_of parse_empty_object (pending_calls (chunks ping_request)))
                       (start_state\<lparr>world := ()\<rparr>)))
           @ rest
         \<and> well_formed_stream rest"
    using r7 by blast
  have r8: "events (chatStreamWithClaude_loop ?tools failing_claude 10 0
                [UserText ''go''] [] start_state) = [Text ''par'', Error ''overloaded'']"
    using D [THEN conjunct2, THEN conjunct2, THEN conjunct2, THEN conjunct2, THEN conjunct2, THEN conjunct2,
      THEN conjunct2, THEN conjunct2, THEN conjunct1, THEN mp, OF fc] by simp
  have st: "stream_texts [Some \<lparr>delta_content = Some ''par'', delta_tool_calls = None\<rparr>] = [Text ''par'']"
    by code_simp
  have r9: "events (chatStreamWithOpenAI_loop ?tools parse_empty_object failing_stream
                10 0 [SystemMessage ''sys'', UserMessage ''go''] [] start_state) = [Text ''par'', Error ''overloaded'']"
    using D [THEN conjunct2, THEN conjunct2, THEN conjunct2, THEN conjunct2, THEN conjunct2, THEN conjunct2,
      THEN conjunct2, THEN conjunct2, THEN conjunct2, THEN mp, OF fo] st by simp
  from g1 r1 g2 r2 g3 r3 p r4 i0 r5' r5 hc r6 ho r7' fc r8 fo r9 show ?thesis by simp
qed

end
